theory Spec2Isabelle
  imports Main "HOL-Library.Word"
begin

unbundle bit_operations_syntax

section \<open>The host runtime, as far as the conversion code relies on it\<close>

text \<open>
  The value-marshalling core of CLIF exchanges values between C++ and the CPython
  runtime. A host value (\<^verbatim>\<open>PyObject*\<close>) is modelled by its shape; a null pointer is
  \<open>None\<close> of \<open>pyobj option\<close>. The thread's error indicator, the reference-count
  operations the code performs, and the number of objects the allocator can still hand
  out form the state that every function takes and returns. An exception is its class
  and its message; a message built by \<^verbatim>\<open>PyErr_Format\<close> is kept as its format
  string.
\<close>

datatype exception =
    TypeError | ValueError | OverflowError | MemoryError | UnicodeEncodeError
  | SystemError | AttributeError

type_synonym pyerr = "exception \<times> string"

datatype pyobj =
    PyNone
  | PyBool bool
  | PyLong int
      \<comment> \<open>an object whose type is exactly \<^verbatim>\<open>int\<close>\<close>
  | PyLongSub int
      \<comment> \<open>an instance of a proper subclass of \<^verbatim>\<open>int\<close> other than \<^verbatim>\<open>bool\<close>\<close>
  | PyBytes string
  | PyUnicode "nat list"
      \<comment> \<open>a \<^verbatim>\<open>str\<close>, as its code points\<close>
  | PyList "pyobj option list"
      \<comment> \<open>a list; a slot that was never set holds a null pointer\<close>
  | PyTuple "pyobj option list"
  | PySet "pyobj list"
      \<comment> \<open>a set: its elements in the order of insertion, no two of them equal\<close>
  | PyDict "(pyobj \<times> pyobj) list"
      \<comment> \<open>a dict: its items in the order of insertion, no two keys equal\<close>
  | PyIter "pyobj list" "pyerr option"
      \<comment> \<open>an iterator: the items it still yields, then the exception it raises, if any\<close>
  | PyFunction nat
      \<comment> \<open>a callable, with the number of positional arguments it takes\<close>
  | PyObject string
      \<comment> \<open>any other object, by the name of its type\<close>

datatype ref_event = Incref pyobj | Decref pyobj

record pystate =
  err :: "pyerr option"
  refs :: "ref_event list"
  avail :: nat

definition PyErr_SetString :: "exception \<Rightarrow> string \<Rightarrow> pystate \<Rightarrow> pystate" where
  "PyErr_SetString e msg s = s\<lparr>err := Some (e, msg)\<rparr>"

definition PyErr_Occurred :: "pystate \<Rightarrow> bool" where
  "PyErr_Occurred s = (err s \<noteq> None)"

definition PyErr_Clear :: "pystate \<Rightarrow> pystate" where
  "PyErr_Clear s = s\<lparr>err := None\<rparr>"

definition PyErr_ExceptionMatches :: "exception \<Rightarrow> pystate \<Rightarrow> bool" where
  "PyErr_ExceptionMatches e s = (case err s of None \<Rightarrow> False | Some (e', _) \<Rightarrow> e' = e)"

definition Py_INCREF :: "pyobj \<Rightarrow> pystate \<Rightarrow> pystate" where
  "Py_INCREF py s = s\<lparr>refs := refs s @ [Incref py]\<rparr>"

definition Py_DECREF :: "pyobj \<Rightarrow> pystate \<Rightarrow> pystate" where
  "Py_DECREF py s = s\<lparr>refs := refs s @ [Decref py]\<rparr>"

definition Py_XDECREF :: "pyobj option \<Rightarrow> pystate \<Rightarrow> pystate" where
  "Py_XDECREF p s = (case p of None \<Rightarrow> s | Some py \<Rightarrow> Py_DECREF py s)"

text \<open>How often the code gave up a reference to \<open>py\<close>.\<close>

definition released :: "pyobj \<Rightarrow> pystate \<Rightarrow> nat" where
  "released py s = count_list (refs s) (Decref py)"

subsection \<open>Type checks and integers (CPython, LP64)\<close>

fun PyLong_Check :: "pyobj \<Rightarrow> bool" where
  "PyLong_Check (PyLong _) = True"
| "PyLong_Check (PyLongSub _) = True"
| "PyLong_Check (PyBool _) = True"
| "PyLong_Check _ = False"

fun PyLong_CheckExact :: "pyobj \<Rightarrow> bool" where
  "PyLong_CheckExact (PyLong _) = True"
| "PyLong_CheckExact _ = False"

fun PyBool_Check :: "pyobj \<Rightarrow> bool" where
  "PyBool_Check (PyBool _) = True"
| "PyBool_Check _ = False"

fun PyCallable_Check :: "pyobj \<Rightarrow> bool" where
  "PyCallable_Check (PyFunction _) = True"
| "PyCallable_Check _ = False"

text \<open>The mathematical value of an \<^verbatim>\<open>int\<close> object; \<^verbatim>\<open>True\<close> is 1 and \<^verbatim>\<open>False\<close> is 0.\<close>

fun long_value :: "pyobj \<Rightarrow> int option" where
  "long_value (PyLong n) = Some n"
| "long_value (PyLongSub n) = Some n"
| "long_value (PyBool b) = Some (if b then 1 else 0)"
| "long_value _ = None"

text \<open>
  \<^verbatim>\<open>long\<close>, \<^verbatim>\<open>long long\<close>, \<^verbatim>\<open>Py_ssize_t\<close> and their unsigned counterparts
  have 64 bits, \<^verbatim>\<open>int\<close> 32, \<^verbatim>\<open>short\<close> 16, \<^verbatim>\<open>char\<close> 8. The readers return
  \<open>-1\<close> with an exception set when the value does not fit.
\<close>

definition PyLong_AsLong :: "pyobj \<Rightarrow> pystate \<Rightarrow> 64 word \<times> pystate" where
  "PyLong_AsLong py s =
     (case long_value py of
        None \<Rightarrow> (- 1, PyErr_SetString TypeError ''an integer is required'' s)
      | Some n \<Rightarrow>
          if - (2 ^ 63) \<le> n \<and> n < 2 ^ 63 then (word_of_int n, s)
          else (- 1, PyErr_SetString OverflowError
                       ''Python int too large to convert to C long'' s))"


definition PyLong_AsUnsignedLong :: "pyobj \<Rightarrow> pystate \<Rightarrow> 64 word \<times> pystate" where
  "PyLong_AsUnsignedLong py s =
     (case long_value py of
        None \<Rightarrow> (- 1, PyErr_SetString TypeError ''an integer is required'' s)
      | Some n \<Rightarrow>
          if n < 0 then
            (- 1, PyErr_SetString OverflowError
                    ''can't convert negative value to unsigned int'' s)
          else if 2 ^ 64 \<le> n then
            (- 1, PyErr_SetString OverflowError
                    ''Python int too large to convert to C unsigned long'' s)
          else (word_of_int n, s))"


definition PyLong_AsUnsignedLongLong :: "pyobj \<Rightarrow> pystate \<Rightarrow> 64 word \<times> pystate" where
  "PyLong_AsUnsignedLongLong py s =
     (case long_value py of
        None \<Rightarrow> (- 1, PyErr_SetString TypeError ''an integer is required'' s)
      | Some n \<Rightarrow>
          if n < 0 then
            (- 1, PyErr_SetString OverflowError
                    ''can't convert negative int to unsigned'' s)
          else if 2 ^ 64 \<le> n then
            (- 1, PyErr_SetString OverflowError ''int too big to convert'' s)
          else (word_of_int n, s))"

section \<open>Scalar conversions from the host (clif/python/types.cc)\<close>

text \<open>
  A conversion from the host takes the host value, the destination as it is before the
  call and the state; it returns the \<^verbatim>\<open>bool\<close> of the C++ function, the destination
  as it is afterwards and the new state.
\<close>

definition Clif_PyObjAs_unsigned_long ::
  "pyobj \<Rightarrow> 64 word \<Rightarrow> pystate \<Rightarrow> bool \<times> 64 word \<times> pystate" where
  "Clif_PyObjAs_unsigned_long py c s =
     (if PyLong_Check py then
        (let (r, s') = PyLong_AsUnsignedLong py s
         in (\<not> PyErr_Occurred s', r, s'))
      else (False, c, PyErr_SetString TypeError ''expecting int'' s))"

definition UCHAR_MAX :: "64 word" where
  "UCHAR_MAX = 255"

text \<open>
  The local \<^verbatim>\<open>unsigned long i\<close> is not initialised in the source; it is read only
  after the inner conversion has written it, so the model starts it at 0.
\<close>

definition Clif_PyObjAs_unsigned_char ::
  "pyobj \<Rightarrow> 8 word \<Rightarrow> pystate \<Rightarrow> bool \<times> 8 word \<times> pystate" where
  "Clif_PyObjAs_unsigned_char py c s =
     (let (ok, i, s') = Clif_PyObjAs_unsigned_long py 0 s
      in if \<not> ok then (False, c, s')
         else if i > UCHAR_MAX then
           (False, c, PyErr_SetString ValueError
                        ''value %ld is too large for unsigned char'' s')
         else (True, ucast i, s'))"

definition INT_MAX :: int where
  "INT_MAX = 2147483647"

definition INT_MIN :: int where
  "INT_MIN = - 2147483648"

text \<open>
  \<^verbatim>\<open>SIZEOF_INT < SIZEOF_LONG\<close> holds, so the range check against \<^verbatim>\<open>int\<close> is
  compiled in. The comparisons on \<^verbatim>\<open>long i\<close> are signed.
\<close>

definition Clif_PyObjAs_int ::
  "pyobj \<Rightarrow> 32 word \<Rightarrow> pystate \<Rightarrow> bool \<times> 32 word \<times> pystate" where
  "Clif_PyObjAs_int py c s =
     (if PyLong_Check py then
        (let (i, s') = PyLong_AsLong py s
         in if i = - 1 \<and> PyErr_Occurred s' then (False, c, s')
            else if sint i > INT_MAX \<or> sint i < INT_MIN then
              (False, c, PyErr_SetString ValueError ''value too large for int'' s')
            else (True, scast i, s'))
      else (False, c, PyErr_SetString TypeError ''expecting int'' s))"















text \<open>
  The 128-bit conversions split the host integer with the number protocol. Small
  integers are preallocated by the interpreter; any other result is a new object, or
  null when none can be made. \<^verbatim>\<open>PyNumber_And\<close> and \<^verbatim>\<open>PyNumber_Rshift\<close> read the
  type of both operands without a test, so they are defined on objects only; the
  readers fail on a null argument.
\<close>

definition new_long :: "int \<Rightarrow> pystate \<Rightarrow> pyobj option \<times> pystate" where
  "new_long n s =
     (if - 5 \<le> n \<and> n \<le> 256 then (Some (PyLong n), s)
      else if avail s = 0 then (None, PyErr_SetString MemoryError [] s)
      else (Some (PyLong n), s\<lparr>avail := avail s - 1\<rparr>))"

definition PyNumber_And :: "pyobj \<Rightarrow> pyobj \<Rightarrow> pystate \<Rightarrow> pyobj option \<times> pystate" where
  "PyNumber_And v w s =
     (case (long_value v, long_value w) of
        (Some m, Some n) \<Rightarrow> new_long (m AND n) s
      | _ \<Rightarrow> (None, PyErr_SetString TypeError ''unsupported operand type(s) for &'' s))"

definition PyNumber_Rshift :: "pyobj \<Rightarrow> pyobj \<Rightarrow> pystate \<Rightarrow> pyobj option \<times> pystate" where
  "PyNumber_Rshift v w s =
     (case (long_value v, long_value w) of
        (Some m, Some n) \<Rightarrow>
          if n < 0 then (None, PyErr_SetString ValueError ''negative shift count'' s)
          else new_long (drop_bit (nat n) m) s
      | _ \<Rightarrow> (None, PyErr_SetString TypeError ''unsupported operand type(s) for >>'' s))"

definition as_unsigned_long_long :: "pyobj option \<Rightarrow> pystate \<Rightarrow> 64 word \<times> pystate" where
  "as_unsigned_long_long p s =
     (case p of
        None \<Rightarrow> (- 1, PyErr_SetString SystemError ''bad argument to internal function'' s)
      | Some py \<Rightarrow> PyLong_AsUnsignedLongLong py s)"



definition MakeUint128 :: "64 word \<Rightarrow> 64 word \<Rightarrow> 128 word" where
  "MakeUint128 hi lo = word_cat hi lo"


definition Clif_PyObjAs_uint128 ::
  "pyobj \<Rightarrow> 128 word \<Rightarrow> pystate \<Rightarrow> (bool \<times> 128 word \<times> pystate) option" where
  "Clif_PyObjAs_uint128 py c s =
     (if PyLong_Check py then
        (case new_long 18446744073709551615 s of
           (None, s1) \<Rightarrow> None
         | (Some ones, s1) \<Rightarrow>
             (let (low, s2) = PyNumber_And py ones s1;
                  (lo, s3) = as_unsigned_long_long low s2
              in case new_long 64 s3 of
                   (None, s4) \<Rightarrow> None
                 | (Some width, s4) \<Rightarrow>
                     (let (high, s5) = PyNumber_Rshift py width s4;
                          (hi, s6) = as_unsigned_long_long high s5
                      in Some (\<not> PyErr_Occurred s6, MakeUint128 hi lo, s6))))
      else Some (False, c, PyErr_SetString TypeError ''expecting int'' s))"

subsection \<open>Text\<close>

text \<open>
  UTF-8 of one code point; a surrogate has none. \<^verbatim>\<open>PyUnicode_AsUTF8AndSize\<close>
  returns the bytes of the whole \<^verbatim>\<open>str\<close>, or null with an exception set.
\<close>

definition utf8_encode :: "nat \<Rightarrow> string option" where
  "utf8_encode cp =
     (if cp < 0x80 then Some [char_of cp]
      else if cp < 0x800 then
        Some [char_of (0xC0 + cp div 0x40), char_of (0x80 + cp mod 0x40)]
      else if 0xD800 \<le> cp \<and> cp < 0xE000 then None
      else if cp < 0x10000 then
        Some [char_of (0xE0 + cp div 0x1000), char_of (0x80 + cp div 0x40 mod 0x40),
              char_of (0x80 + cp mod 0x40)]
      else if cp < 0x110000 then
        Some [char_of (0xF0 + cp div 0x40000), char_of (0x80 + cp div 0x1000 mod 0x40),
              char_of (0x80 + cp div 0x40 mod 0x40), char_of (0x80 + cp mod 0x40)]
      else None)"

fun utf8_of :: "nat list \<Rightarrow> string option" where
  "utf8_of [] = Some []"
| "utf8_of (cp # cps) =
     (case utf8_encode cp of
        None \<Rightarrow> None
      | Some bs \<Rightarrow> (case utf8_of cps of None \<Rightarrow> None | Some rest \<Rightarrow> Some (bs @ rest)))"

definition PyUnicode_AsUTF8AndSize :: "nat list \<Rightarrow> pystate \<Rightarrow> string option \<times> pystate" where
  "PyUnicode_AsUTF8AndSize cps s =
     (case utf8_of cps of
        None \<Rightarrow> (None, PyErr_SetString UnicodeEncodeError ''surrogates not allowed'' s)
      | Some bs \<Rightarrow> (Some bs, s))"

text \<open>
  \<^verbatim>\<open>py::ObjToStr\<close> (Python 3 branch) hands the bytes to the \<^verbatim>\<open>copy\<close> functor;
  \<^verbatim>\<open>Clif_PyObjAs\<close> for \<^verbatim>\<open>std::string\<close> passes the functor that assigns them to
  the destination. Both a \<^verbatim>\<open>str\<close> and a \<^verbatim>\<open>bytes\<close> object are accepted; the
  tests \<^verbatim>\<open>PyUnicode_Check\<close> and \<^verbatim>\<open>PyBytes_Check\<close> are the first two cases.
\<close>

definition ObjToStr ::
  "pyobj \<Rightarrow> (string \<Rightarrow> 'c \<Rightarrow> 'c) \<Rightarrow> 'c \<Rightarrow> pystate \<Rightarrow> bool \<times> 'c \<times> pystate" where
  "ObjToStr py copy c s =
     (case py of
        PyUnicode cps \<Rightarrow>
          (case PyUnicode_AsUTF8AndSize cps s of
             (None, s') \<Rightarrow> (False, c, s')
           | (Some data, s') \<Rightarrow> (True, copy data c, s'))
      | PyBytes data \<Rightarrow> (True, copy data c, s)
      | _ \<Rightarrow> (False, c, PyErr_SetString TypeError ''expecting str'' s))"

definition Clif_PyObjAs_string ::
  "pyobj \<Rightarrow> string \<Rightarrow> pystate \<Rightarrow> bool \<times> string \<times> pystate" where
  "Clif_PyObjAs_string p c s = ObjToStr p (\<lambda>data _. data) c s"

section \<open>Conversions to the host\<close>

text \<open>
  Allocation takes one object from the allocator; when none is left the constructor
  returns null with \<^verbatim>\<open>MemoryError\<close> set.
\<close>

definition alloc :: "pyobj \<Rightarrow> pystate \<Rightarrow> pyobj option \<times> pystate" where
  "alloc py s =
     (if avail s = 0 then (None, PyErr_SetString MemoryError [] s)
      else (Some py, s\<lparr>avail := avail s - 1\<rparr>))"

definition PyBytes_FromStringAndSize :: "string \<Rightarrow> pystate \<Rightarrow> pyobj option \<times> pystate" where
  "PyBytes_FromStringAndSize data s = alloc (PyBytes data) s"

definition PyList_New :: "nat \<Rightarrow> pystate \<Rightarrow> pyobj option \<times> pystate" where
  "PyList_New n s = alloc (PyList (replicate n None)) s"


text \<open>
  Modelled from the spec: the post-conversion policy \<^verbatim>\<open>py::PostConv\<close>, whose header
  clif/python/postconv.h is not among the sources. It is a read-only, recursively
  indexable configuration object: \<^verbatim>\<open>Apply\<close> post-processes a freshly converted host
  value, \<^verbatim>\<open>Get(i)\<close> is the policy of position \<open>i\<close>. The default policy \<^verbatim>\<open>{}\<close>
  passes every value through, at every position.
\<close>

datatype PostConv =
  PostConv (Apply: "pyobj option \<Rightarrow> pystate \<Rightarrow> pyobj option \<times> pystate")
           (positions: "PostConv list")

definition PostConv_default :: PostConv where
  "PostConv_default = PostConv (\<lambda>py s. (py, s)) []"

definition Get :: "PostConv \<Rightarrow> nat \<Rightarrow> PostConv" where
  "Get pc i = (if i < length (positions pc) then positions pc ! i else PostConv_default)"

definition Clif_PyObjFrom_string ::
  "string \<Rightarrow> PostConv \<Rightarrow> pystate \<Rightarrow> pyobj option \<times> pystate" where
  "Clif_PyObjFrom_string c pc s =
     (let (b, s') = PyBytes_FromStringAndSize c s in Apply pc b s')"

text \<open>
  Modelled from the spec: the conversions of the integer types and of \<^verbatim>\<open>bool\<close> to
  the host, which are declared in clif/python/types.h, not among the sources. All
  scalar conversions to the host are total; the host value is the \<^verbatim>\<open>int\<close> equal to
  the native value (read as signed or as unsigned, by the native type), or the
  \<^verbatim>\<open>bool\<close>.
\<close>

definition Clif_PyObjFrom_signed ::
  "'a::len word \<Rightarrow> PostConv \<Rightarrow> pystate \<Rightarrow> pyobj option \<times> pystate" where
  "Clif_PyObjFrom_signed c pc s = (Some (PyLong (sint c)), s)"

definition Clif_PyObjFrom_unsigned ::
  "'a::len word \<Rightarrow> PostConv \<Rightarrow> pystate \<Rightarrow> pyobj option \<times> pystate" where
  "Clif_PyObjFrom_unsigned c pc s = (Some (PyLong (uint c)), s)"

definition Clif_PyObjFrom_bool ::
  "bool \<Rightarrow> PostConv \<Rightarrow> pystate \<Rightarrow> pyobj option \<times> pystate" where
  "Clif_PyObjFrom_bool c pc s = (Some (PyBool c), s)"

section \<open>Result adapters for protocol slots (namespace \<^verbatim>\<open>clif::slot\<close>)\<close>

text \<open>
  \<^verbatim>\<open>PyObject_IsTrue\<close> on the shapes of the model, none of which has a user-defined
  \<^verbatim>\<open>__bool__\<close> or \<^verbatim>\<open>__len__\<close> that could raise.
\<close>

fun PyObject_IsTrue :: "pyobj \<Rightarrow> int" where
  "PyObject_IsTrue PyNone = 0"
| "PyObject_IsTrue (PyBool b) = (if b then 1 else 0)"
| "PyObject_IsTrue (PyLong n) = (if n = 0 then 0 else 1)"
| "PyObject_IsTrue (PyLongSub n) = (if n = 0 then 0 else 1)"
| "PyObject_IsTrue (PyBytes bs) = (if bs = [] then 0 else 1)"
| "PyObject_IsTrue (PyUnicode cps) = (if cps = [] then 0 else 1)"
| "PyObject_IsTrue (PyList xs) = (if xs = [] then 0 else 1)"
| "PyObject_IsTrue (PyTuple xs) = (if xs = [] then 0 else 1)"
| "PyObject_IsTrue (PySet xs) = (if xs = [] then 0 else 1)"
| "PyObject_IsTrue (PyDict xs) = (if xs = [] then 0 else 1)"
| "PyObject_IsTrue _ = 1"

definition as_bool :: "pyobj \<Rightarrow> pystate \<Rightarrow> int \<times> pystate" where
  "as_bool res s =
     (if PyLong_CheckExact res \<or> PyBool_Check res then
        (let i = PyObject_IsTrue res;
             s1 = Py_DECREF res s
         in (i, s1))
      else
        (let s1 = Py_DECREF res s;
             s2 = PyErr_SetString ValueError ''__nonzero__ must return int or bool'' s1
         in (- 1, s2)))"

text \<open>
  \<^verbatim>\<open>PyObject_Hash\<close>, the generic hashing operation of the runtime, is a parameter:
  it depends on the type of the object and on the hash seed of the process.
\<close>

definition as_hash ::
  "(pyobj \<Rightarrow> pystate \<Rightarrow> 64 word \<times> pystate) \<Rightarrow> pyobj \<Rightarrow> pystate \<Rightarrow> 64 word \<times> pystate" where
  "as_hash PyObject_Hash res s =
     (if PyLong_Check res then
        (let (i, s1) = PyLong_AsLong res s
         in if i = - 1 \<and> PyErr_Occurred s1 then
              (if PyErr_ExceptionMatches OverflowError s1 then
                 (let (h, s2) = PyObject_Hash res (PyErr_Clear s1)
                  in (h, Py_DECREF res s2))
               else (i, Py_DECREF res s1))
            else (i, Py_DECREF res s1))
      else
        (let s1 = PyErr_SetString TypeError ''__hash__ must return int'' s
         in (- 1, Py_DECREF res s1)))"

text \<open>
  What CPython's \<^verbatim>\<open>int\<close> computes as its hash: the value modulo the Mersenne prime
  \<open>2 ^ 61 - 1\<close>, with the sign of the value, and never \<open>-1\<close>.
\<close>

definition long_hash :: "int \<Rightarrow> 64 word" where
  "long_hash n =
     (let h = sgn n * (\<bar>n\<bar> mod (2 ^ 61 - 1))
      in word_of_int (if h = - 1 then - 2 else h))"

section \<open>Ownership wrappers (clif/python/stltypes.h)\<close>

text \<open>
  A C++ template over the payload type \<^verbatim>\<open>T\<close> becomes a function over the payload's
  own conversion \<open>conv\<close> (the overload \<^verbatim>\<open>Clif_PyObjAs(PyObject*, T*)\<close>) and the
  value \<open>dflt\<close> of a default-constructed \<^verbatim>\<open>T\<close>. An empty \<^verbatim>\<open>std::optional\<close> and a null
  \<^verbatim>\<open>std::unique_ptr\<close> are \<open>None\<close>.
\<close>

type_synonym 'a from_host = "pyobj \<Rightarrow> 'a \<Rightarrow> pystate \<Rightarrow> bool \<times> 'a \<times> pystate"

type_synonym 'a to_host = "'a \<Rightarrow> PostConv \<Rightarrow> pystate \<Rightarrow> pyobj option \<times> pystate"

definition Clif_PyObjAs_optional ::
  "'a from_host \<Rightarrow> 'a \<Rightarrow> 'a option from_host" where
  "Clif_PyObjAs_optional conv dflt py c s =
     (if py = PyNone then (True, None, s)
      else
        (let (ok, x, s') = conv py dflt s
         in if \<not> ok then (False, None, s') else (True, Some x, s')))"


text \<open>
  \<^verbatim>\<open>new T\<close> throws when it cannot allocate, so \<^verbatim>\<open>pt.get()\<close> is never null at the
  test; the conversion runs on the fresh object and the destination is assigned by the
  last statement only.
\<close>

definition Clif_PyObjAs_unique_ptr ::
  "'a from_host \<Rightarrow> 'a \<Rightarrow> 'a option from_host" where
  "Clif_PyObjAs_unique_ptr conv dflt py c s =
     (let (ok, pt, s') = conv py dflt s
      in if \<not> ok then (False, c, s') else (True, Some pt, s'))"

section \<open>Sequences of the host\<close>

text \<open>
  A list or tuple with an unset slot must not be exposed to the interpreter (CPython
  documents this for \<^verbatim>\<open>PyList_New\<close>); where the model is asked to read such a slot
  it answers null, and \<^verbatim>\<open>SystemError\<close> when asked to iterate.
\<close>

definition PySequence_Length :: "pyobj \<Rightarrow> pystate \<Rightarrow> int \<times> pystate" where
  "PySequence_Length py s =
     (case py of
        PyList slots \<Rightarrow> (int (length slots), s)
      | PyTuple slots \<Rightarrow> (int (length slots), s)
      | PyBytes bs \<Rightarrow> (int (length bs), s)
      | PyUnicode cps \<Rightarrow> (int (length cps), s)
      | PySet items \<Rightarrow> (int (length items), s)
      | _ \<Rightarrow> (- 1, PyErr_SetString TypeError ''object has no len()'' s))"

text \<open>
  \<^verbatim>\<open>PySequence_ITEM\<close> is called by the code only after the length has been
  found to be 2, with index 0 or 1; it returns a new reference. The macro calls the
  item function of the type without a test. A set has a length but no item function:
  there the call goes through a null pointer and does not return. The model has to
  return and answers null with an exception, as for the objects without a length; no
  statement below rests on that answer.
\<close>

definition PySequence_ITEM :: "pyobj \<Rightarrow> nat \<Rightarrow> pystate \<Rightarrow> pyobj option \<times> pystate" where
  "PySequence_ITEM py i s =
     (case py of
        PyList slots \<Rightarrow> (if i < length slots then slots ! i else None, s)
      | PyTuple slots \<Rightarrow> (if i < length slots then slots ! i else None, s)
      | PyBytes bs \<Rightarrow>
          (if i < length bs then Some (PyLong (of_char (bs ! i))) else None, s)
      | PyUnicode cps \<Rightarrow> (if i < length cps then Some (PyUnicode [cps ! i]) else None, s)
      | _ \<Rightarrow> (None, PyErr_SetString TypeError ''object does not support indexing'' s))"

definition PyList_SET_ITEM :: "pyobj \<Rightarrow> nat \<Rightarrow> pyobj \<Rightarrow> pyobj" where
  "PyList_SET_ITEM py i v =
     (case py of PyList slots \<Rightarrow> PyList (slots[i := Some v]) | _ \<Rightarrow> py)"


fun those_slots :: "pyobj option list \<Rightarrow> pyobj list option" where
  "those_slots [] = Some []"
| "those_slots (None # _) = None"
| "those_slots (Some x # xs) =
     (case those_slots xs of None \<Rightarrow> None | Some ys \<Rightarrow> Some (x # ys))"

definition iter_of_slots :: "pyobj option list \<Rightarrow> pyobj" where
  "iter_of_slots slots =
     (case those_slots slots of
        Some items \<Rightarrow> PyIter items None
      | None \<Rightarrow> PyIter [] (Some (SystemError, ''unset slot'')))"

definition PyObject_GetIter :: "pyobj \<Rightarrow> pystate \<Rightarrow> pyobj option \<times> pystate" where
  "PyObject_GetIter py s =
     (case py of
        PyList slots \<Rightarrow> (Some (iter_of_slots slots), s)
      | PyTuple slots \<Rightarrow> (Some (iter_of_slots slots), s)
      | PyBytes bs \<Rightarrow> (Some (PyIter (map (\<lambda>b. PyLong (of_char b)) bs) None), s)
      | PyUnicode cps \<Rightarrow> (Some (PyIter (map (\<lambda>cp. PyUnicode [cp]) cps) None), s)
      | PyIter items e \<Rightarrow> (Some (PyIter items e), s)
      | PySet items \<Rightarrow> (Some (PyIter items None), s)
      | PyDict kvs \<Rightarrow> (Some (PyIter (map fst kvs) None), s)
      | _ \<Rightarrow> (None, PyErr_SetString TypeError ''object is not iterable'' s))"

text \<open>
  \<^verbatim>\<open>PyIter_Next\<close> returns the next item and the iterator advanced by one, or null:
  without an exception when the iterator is exhausted, with the iterator's exception
  otherwise.
\<close>

definition PyIter_Next :: "pyobj \<Rightarrow> pystate \<Rightarrow> pyobj option \<times> pyobj \<times> pystate" where
  "PyIter_Next it s =
     (case it of
        PyIter (el # rest) e \<Rightarrow> (Some el, PyIter rest e, s)
      | PyIter [] None \<Rightarrow> (None, it, s)
      | PyIter [] (Some ex) \<Rightarrow> (None, PyIter [] None, s\<lparr>err := Some ex\<rparr>)
      | _ \<Rightarrow> (None, it, PyErr_SetString TypeError ''object is not an iterator'' s))"

section \<open>Tuples, sets and dicts of the host\<close>



text \<open>
  Lists, sets and dicts cannot be hashed, and a tuple can if its items can. Equality
  as the interpreter sees it: integers, \<^verbatim>\<open>True\<close> and \<^verbatim>\<open>False\<close> included, are equal
  when their values are; tuples when their items are; other objects when they are the
  same.
\<close>

fun hashable :: "pyobj \<Rightarrow> bool" and hashable_slots :: "pyobj option list \<Rightarrow> bool" where
  "hashable (PyList _) = False"
| "hashable (PySet _) = False"
| "hashable (PyDict _) = False"
| "hashable (PyTuple slots) = hashable_slots slots"
| "hashable PyNone = True"
| "hashable (PyBool _) = True"
| "hashable (PyLong _) = True"
| "hashable (PyLongSub _) = True"
| "hashable (PyBytes _) = True"
| "hashable (PyUnicode _) = True"
| "hashable (PyIter _ _) = True"
| "hashable (PyFunction _) = True"
| "hashable (PyObject _) = True"
| "hashable_slots [] = True"
| "hashable_slots (None # slots) = hashable_slots slots"
| "hashable_slots (Some x # slots) = (hashable x \<and> hashable_slots slots)"

fun py_eq :: "pyobj \<Rightarrow> pyobj \<Rightarrow> bool"
  and py_eq_slots :: "pyobj option list \<Rightarrow> pyobj option list \<Rightarrow> bool" where
  "py_eq a b =
     (case a of
        PyTuple xs \<Rightarrow> (case b of PyTuple ys \<Rightarrow> py_eq_slots xs ys | _ \<Rightarrow> False)
      | _ \<Rightarrow>
          (case long_value a of
             Some m \<Rightarrow> (case long_value b of Some n \<Rightarrow> m = n | None \<Rightarrow> False)
           | None \<Rightarrow> a = b))"
| "py_eq_slots [] [] = True"
| "py_eq_slots (Some x # xs) (Some y # ys) = (py_eq x y \<and> py_eq_slots xs ys)"
| "py_eq_slots (None # xs) (None # ys) = py_eq_slots xs ys"
| "py_eq_slots _ _ = False"

definition PySet_New :: "pystate \<Rightarrow> pyobj option \<times> pystate" where
  "PySet_New s = alloc (PySet []) s"


text \<open>
  \<^verbatim>\<open>PySet_Add\<close> and \<^verbatim>\<open>PyDict_SetItem\<close> return \<open>-1\<close> with \<^verbatim>\<open>TypeError\<close> for
  a key that cannot be hashed. An element equal to one in the set is not added; a key
  equal to one in the dict keeps that key and takes the new value.
\<close>

definition PySet_Add :: "pyobj \<Rightarrow> pyobj \<Rightarrow> pystate \<Rightarrow> int \<times> pyobj \<times> pystate" where
  "PySet_Add py key s =
     (case py of
        PySet items \<Rightarrow>
          if \<not> hashable key then (- 1, py, PyErr_SetString TypeError ''unhashable type'' s)
          else if list_ex (\<lambda>x. py_eq x key) items then (0, py, s)
          else (0, PySet (items @ [key]), s)
      | _ \<Rightarrow> (- 1, py, PyErr_SetString SystemError ''bad argument to internal function'' s))"




section \<open>Pairs\<close>


text \<open>
  The locals \<^verbatim>\<open>Key k\<close> and \<^verbatim>\<open>Val v\<close> are default-constructed (\<open>dfltT\<close>,
  \<open>dfltU\<close>); the destination \<open>c\<close> is written by the last two assignments only.
\<close>

definition Clif_PyObjAs_pair ::
  "'a from_host \<Rightarrow> 'a \<Rightarrow> 'b from_host \<Rightarrow> 'b \<Rightarrow> ('a \<times> 'b) from_host" where
  "Clif_PyObjAs_pair convT dfltT convU dfltU py c s =
     (let (len, s0) = PySequence_Length py s
      in if len \<noteq> 2 then
           (False, c,
            if len \<noteq> - 1 then
              PyErr_SetString ValueError ''expected a sequence with len==2, got %zd'' s0
            else s0)
         else
           (case PySequence_ITEM py 0 s0 of
              (None, s1) \<Rightarrow> (False, c, Py_XDECREF None s1)
            | (Some item0, s1) \<Rightarrow>
                (let (ok0, k, s2) = convT item0 dfltT s1
                 in if \<not> ok0 then (False, c, Py_XDECREF (Some item0) s2)
                    else
                      (case PySequence_ITEM py 1 (Py_DECREF item0 s2) of
                         (None, s3) \<Rightarrow> (False, c, Py_XDECREF None s3)
                       | (Some item1, s3) \<Rightarrow>
                           (let (ok1, v, s4) = convU item1 dfltU s3
                            in if \<not> ok1 then (False, c, Py_XDECREF (Some item1) s4)
                               else (True, (k, v), Py_DECREF item1 s4))))))"

section \<open>Containers\<close>

text \<open>
  \<^verbatim>\<open>py::ListFromSizableCont\<close>. The container is the list of its elements in
  iteration order, \<open>conv\<close> is the element type's \<^verbatim>\<open>Clif_PyObjFrom\<close>. The loop
  carries the host list \<open>py\<close> under construction and the index \<open>i\<close> of the next
  slot.
\<close>

fun ListFromSizableCont_loop ::
  "'a to_host \<Rightarrow> PostConv \<Rightarrow> 'a list \<Rightarrow> pyobj \<Rightarrow> nat \<Rightarrow> pystate \<Rightarrow> pyobj option \<times> pystate" where
  "ListFromSizableCont_loop conv pct [] py i s = (Some py, s)"
| "ListFromSizableCont_loop conv pct (j # js) py i s =
     (case conv j pct s of
        (None, s') \<Rightarrow> (None, Py_DECREF py s')
      | (Some v, s') \<Rightarrow>
          ListFromSizableCont_loop conv pct js (PyList_SET_ITEM py i v) (i + 1) s')"

definition ListFromSizableCont :: "'a to_host \<Rightarrow> 'a list to_host" where
  "ListFromSizableCont conv c pc s =
     (case PyList_New (length c) s of
        (None, s0) \<Rightarrow> (None, s0)
      | (Some py, s0) \<Rightarrow> ListFromSizableCont_loop conv (Get pc 0) c py 0 s0)"


text \<open>
  \<^verbatim>\<open>py::IterToCont\<close>, in the branch compiled for a default-constructible element
  type: each element is converted into a fresh \<^verbatim>\<open>Item\<close> and handed to the inserter
  \<open>add\<close>. The loop carries the host iterator and the destination container.
\<close>

function IterToCont_loop ::
  "'a from_host \<Rightarrow> 'a \<Rightarrow> ('a \<Rightarrow> 'c \<Rightarrow> 'c) \<Rightarrow> pyobj \<Rightarrow> 'c \<Rightarrow> pystate \<Rightarrow> bool \<times> 'c \<times> pystate" where
  "IterToCont_loop conv dflt add it c s =
     (case PyIter_Next it s of
        (None, it', s0) \<Rightarrow>
          (let s1 = Py_DECREF it' s0 in (\<not> PyErr_Occurred s1, c, s1))
      | (Some el, it', s0) \<Rightarrow>
          (let (ok, item, s1) = conv el dflt s0;
               s2 = Py_DECREF el s1
           in if \<not> ok then (False, c, Py_DECREF it' s2)
              else IterToCont_loop conv dflt add it' (add item c) s2))"
  by pat_completeness auto

fun iter_size :: "pyobj \<Rightarrow> nat" where
  "iter_size (PyIter items e) = length items"
| "iter_size _ = 0"

termination IterToCont_loop
  by (relation "measure (\<lambda>(conv, dflt, add, it, c, s). iter_size it)")
     (auto simp: PyIter_Next_def PyErr_SetString_def
           split: pyobj.splits list.splits option.splits)

definition IterToCont ::
  "'a from_host \<Rightarrow> 'a \<Rightarrow> ('a \<Rightarrow> 'c \<Rightarrow> 'c) \<Rightarrow> pyobj \<Rightarrow> 'c \<Rightarrow> pystate \<Rightarrow> bool \<times> 'c \<times> pystate" where
  "IterToCont conv dflt add py c s =
     (case PyObject_GetIter py s of
        (None, s0) \<Rightarrow> (False, c, s0)
      | (Some it, s0) \<Rightarrow> IterToCont_loop conv dflt add it c s0)"

text \<open>\<^verbatim>\<open>std::vector\<close>: the destination is cleared, then filled by \<^verbatim>\<open>push_back\<close>.\<close>

definition Clif_PyObjAs_vector :: "'a from_host \<Rightarrow> 'a \<Rightarrow> 'a list from_host" where
  "Clif_PyObjAs_vector conv dflt py c s =
     IterToCont conv dflt (\<lambda>i c. c @ [i]) py [] s"






text \<open>
  \<^verbatim>\<open>py::SetFromCont\<close> and \<^verbatim>\<open>py::DictFromCont\<close>, over the elements of the
  container in iteration order. The set or dict takes its own references, so the loop
  gives up the references it got from the element conversions.
\<close>

fun SetFromCont_loop ::
  "'a to_host \<Rightarrow> PostConv \<Rightarrow> 'a list \<Rightarrow> pyobj \<Rightarrow> pystate \<Rightarrow> pyobj option \<times> pystate" where
  "SetFromCont_loop conv pct [] py s = (Some py, s)"
| "SetFromCont_loop conv pct (i # rest) py s =
     (case conv i pct s of
        (None, s') \<Rightarrow> (None, Py_XDECREF None (Py_DECREF py s'))
      | (Some j, s') \<Rightarrow>
          (case PySet_Add py j s' of
             (r, py', s'') \<Rightarrow>
               if r < 0 then (None, Py_XDECREF (Some j) (Py_DECREF py' s''))
               else SetFromCont_loop conv pct rest py' (Py_DECREF j s'')))"

definition SetFromCont :: "'a to_host \<Rightarrow> 'a list to_host" where
  "SetFromCont conv c pc s =
     (case PySet_New s of
        (None, s0) \<Rightarrow> (None, s0)
      | (Some py, s0) \<Rightarrow> SetFromCont_loop conv (Get pc 0) c py s0)"



text \<open>
  \<^verbatim>\<open>std::set\<close> and \<^verbatim>\<open>std::unordered_set\<close> are sets, \<^verbatim>\<open>std::map\<close> and
  \<^verbatim>\<open>std::unordered_map\<close> are maps; the order in which the container is iterated
  (ascending for the ordered ones, by bucket for the others) is the parameter
  \<open>order\<close>. From the host, the destination is cleared and filled by insertion; a map
  is filled from the items of the host object, each converted as a pair.
\<close>

definition Clif_PyObjFrom_set :: "('a set \<Rightarrow> 'a list) \<Rightarrow> 'a to_host \<Rightarrow> 'a set to_host" where
  "Clif_PyObjFrom_set order conv c pc s = SetFromCont conv (order c) pc s"

definition Clif_PyObjAs_set :: "'a from_host \<Rightarrow> 'a \<Rightarrow> 'a set from_host" where
  "Clif_PyObjAs_set conv dflt py c s =
     IterToCont conv dflt (\<lambda>i c. insert i c) py {} s"




section \<open>\<^verbatim>\<open>std::tuple\<close>\<close>





section \<open>\<^verbatim>\<open>std::variant\<close>\<close>

text \<open>
  A variant over alternatives \<^verbatim>\<open>U...\<close> holds the index of the active alternative
  and its value; \<open>'v\<close> is the sum of the alternative types. For each alternative the
  compiler picks one of three strategies (\<^verbatim>\<open>Convert\<close> with \<^verbatim>\<open>Priority<0>\<close>,
  \<^verbatim>\<open><1>\<close>, \<^verbatim>\<open><2>\<close>): the direct conversion into a default-constructed
  alternative, a conversion found for \<^verbatim>\<open>std::optional<T>\<close>, or one found for
  \<^verbatim>\<open>std::unique_ptr<T>\<close>. The last two dereference the wrapper after a successful
  conversion; on an empty wrapper that is undefined behaviour, \<open>None\<close> in the model.
\<close>

record 'v variant =
  index :: nat
  held :: 'v

datatype 'v conversion =
    Direct 'v "'v from_host"
  | ViaOptional "'v option from_host"
  | ViaUniquePtr "'v option from_host"

fun Convert ::
  "nat \<Rightarrow> 'v conversion \<Rightarrow> pyobj \<Rightarrow> 'v variant \<Rightarrow> pystate
     \<Rightarrow> (bool \<times> 'v variant \<times> pystate) option" where
  "Convert I (Direct dflt conv) py v s =
     (let (ok, x, s') = conv py dflt s
      in Some (ok, \<lparr>index = I, held = x\<rparr>, s'))"
| "Convert I (ViaOptional conv) py v s =
     (let (ok, val, s') = conv py None s
      in if ok then
           (case val of
              None \<Rightarrow> None
            | Some x \<Rightarrow> Some (True, \<lparr>index = I, held = x\<rparr>, s'))
         else Some (False, v, s'))"
| "Convert I (ViaUniquePtr conv) py v s =
     (let (ok, val, s') = conv py None s
      in if ok then
           (case val of
              None \<Rightarrow> None
            | Some x \<Rightarrow> Some (True, \<lparr>index = I, held = x\<rparr>, s'))
         else Some (False, v, s'))"

definition PyObjAsVariantAt ::
  "nat \<Rightarrow> 'v conversion list \<Rightarrow> pyobj \<Rightarrow> 'v variant \<Rightarrow> pystate
     \<Rightarrow> (bool \<times> 'v variant \<times> pystate) option" where
  "PyObjAsVariantAt I alts py v s = Convert I (alts ! I) py v s"

text \<open>
  The debug assertion \<^verbatim>\<open>DCHECK(success || PyErr_Occurred() != nullptr)\<close> has no
  effect in an optimised build and is left out.
\<close>

function PyObjAsVariantTryAll ::
  "nat \<Rightarrow> 'v conversion list \<Rightarrow> pyobj \<Rightarrow> 'v variant \<Rightarrow> pystate
     \<Rightarrow> (bool \<times> 'v variant \<times> pystate) option" where
  "PyObjAsVariantTryAll I alts py v s =
     (if I < length alts then
        (case PyObjAsVariantAt I alts py v s of
           None \<Rightarrow> None
         | Some (success, v', s') \<Rightarrow>
             if success then Some (True, v', s')
             else PyObjAsVariantTryAll (I + 1) alts py v' (PyErr_Clear s'))
      else
        Some (False, v,
              PyErr_SetString TypeError
                ''Failed to convert to any of std::variant alternatives'' s))"
  by pat_completeness auto
termination
  by (relation "measure (\<lambda>(I, alts, py, v, s). length alts - I)") auto

definition Clif_PyObjAs_variant ::
  "'v conversion list \<Rightarrow> pyobj \<Rightarrow> 'v variant \<Rightarrow> pystate
     \<Rightarrow> (bool \<times> 'v variant \<times> pystate) option" where
  "Clif_PyObjAs_variant alts obj v s = PyObjAsVariantTryAll 0 alts obj v s"



section \<open>The iterator over a shared container\<close>

text \<open>
  A \<^verbatim>\<open>std::shared_ptr<Container>\<close> is a handle into a store of control blocks, each
  with the container and the number of owners; the null pointer is \<open>None\<close>. The
  position \<^verbatim>\<open>it_\<close> is an index into the container (the members \<^verbatim>\<open>self_\<close>
  and \<^verbatim>\<open>it_\<close> are the fields \<open>self_ptr\<close> and \<open>it_pos\<close>). \<^verbatim>\<open>Next\<close> returns the element
  the returned pointer refers to, or \<open>None\<close> for \<^verbatim>\<open>nullptr\<close>. Reading through a
  handle whose block is gone, or at a position past the end, is undefined behaviour:
  the outer \<open>None\<close>.
\<close>

record 'a control_block =
  object :: "'a list"
  use_count :: nat

type_synonym 'a store = "nat \<rightharpoonup> 'a control_block"

record Iterator =
  self_ptr :: "nat option"
  it_pos :: nat

definition owners :: "nat \<Rightarrow> 'a store \<Rightarrow> nat" where
  "owners h st = (case st h of None \<Rightarrow> 0 | Some cb \<Rightarrow> use_count cb)"

text \<open>\<^verbatim>\<open>reset()\<close> drops one owner; the last owner destroys the container.\<close>

definition shared_ptr_reset :: "nat \<Rightarrow> 'a store \<Rightarrow> 'a store" where
  "shared_ptr_reset h st =
     (case st h of
        None \<Rightarrow> st
      | Some cb \<Rightarrow>
          if use_count cb \<le> 1 then st(h := None)
          else st(h \<mapsto> cb\<lparr>use_count := use_count cb - 1\<rparr>))"

definition Next ::
  "Iterator \<Rightarrow> 'a store \<Rightarrow> ('a option \<times> Iterator \<times> 'a store) option" where
  "Next it st =
     (case self_ptr it of
        None \<Rightarrow> Some (None, it, st)
      | Some h \<Rightarrow>
          (case st h of
             None \<Rightarrow> None
           | Some cb \<Rightarrow>
               if it_pos it \<noteq> length (object cb) then
                 (if it_pos it < length (object cb) then
                    Some (Some (object cb ! it_pos it), it\<lparr>it_pos := it_pos it + 1\<rparr>, st)
                  else None)
               else Some (None, it\<lparr>self_ptr := None\<rparr>, shared_ptr_reset h st)))"

text \<open>Calling \<^verbatim>\<open>Next\<close> \<open>n\<close> more times and keeping the last answer.\<close>

fun Next_times ::
  "nat \<Rightarrow> Iterator \<Rightarrow> 'a store \<Rightarrow> ('a option \<times> Iterator \<times> 'a store) option" where
  "Next_times 0 it st = Next it st"
| "Next_times (Suc n) it st =
     (case Next it st of None \<Rightarrow> None | Some (_, it', st') \<Rightarrow> Next_times n it' st')"

section \<open>Host callables as \<^verbatim>\<open>std::function\<close>\<close>

text \<open>
  \<^verbatim>\<open>callback::Func\<close> keeps the callable and the policy (its members
  \<^verbatim>\<open>callback_\<close> and \<^verbatim>\<open>pc_\<close>); its constructor takes a
  reference to the callable (under the interpreter lock, which the model does not
  track).
\<close>

record Func =
  callback :: pyobj
  pcv :: PostConv

definition Func_new :: "pyobj \<Rightarrow> PostConv \<Rightarrow> pystate \<Rightarrow> Func \<times> pystate" where
  "Func_new callable pc s = (\<lparr>callback = callable, pcv = pc\<rparr>, Py_INCREF callable s)"

text \<open>
  Modelled from the spec: \<^verbatim>\<open>CallableNeedsNarguments\<close>, which is declared outside the
  sources at hand. Construction validates that the callable's arity matches the
  number of arguments of the native signature; a mismatch is an arity-mismatch error.
\<close>

definition arity_mismatch :: pyerr where
  "arity_mismatch = (TypeError, ''callable does not take the expected number of arguments'')"

definition CallableNeedsNarguments :: "pyobj \<Rightarrow> nat \<Rightarrow> pystate \<Rightarrow> bool \<times> pystate" where
  "CallableNeedsNarguments py nargs s =
     (case py of
        PyFunction arity \<Rightarrow>
          if arity = nargs then (True, s) else (False, s\<lparr>err := Some arity_mismatch\<rparr>)
      | _ \<Rightarrow> (False, s\<lparr>err := Some arity_mismatch\<rparr>))"

text \<open>
  The destination \<^verbatim>\<open>std::function\<close> is \<open>None\<close> when it has no target; \<open>nargs\<close> is
  \<^verbatim>\<open>sizeof...(T)\<close>.
\<close>

definition Clif_PyObjAs_function ::
  "nat \<Rightarrow> pyobj \<Rightarrow> Func option \<Rightarrow> PostConv \<Rightarrow> pystate \<Rightarrow> bool \<times> Func option \<times> pystate" where
  "Clif_PyObjAs_function nargs py c pc s =
     (if \<not> PyCallable_Check py then
        (False, c, PyErr_SetString TypeError ''callable expected'' s)
      else
        (case CallableNeedsNarguments py nargs s of
           (False, s') \<Rightarrow> (False, c, s')
         | (True, s') \<Rightarrow>
             (let (f, s'') = Func_new py pc s' in (True, Some f, s''))))"

section \<open>Notions used to state the properties\<close>

declare IterToCont_loop.simps [simp del]
declare PyObjAsVariantTryAll.simps [simp del]
declare py_eq.simps(1) [simp del]

text \<open>
  What the conversion of one alternative does when it is run by itself on the host
  value, on a fresh destination as its strategy prepares it: the \<^verbatim>\<open>bool\<close> it
  returns, the value it has produced for the alternative (none when a wrapper comes back
  empty), and the state it leaves.
\<close>

fun conversion_run :: "'v conversion \<Rightarrow> pyobj \<Rightarrow> pystate \<Rightarrow> bool \<times> 'v option \<times> pystate" where
  "conversion_run (Direct dflt conv) py s =
     (case conv py dflt s of (ok, x, s') \<Rightarrow> (ok, Some x, s'))"
| "conversion_run (ViaOptional conv) py s = conv py None s"
| "conversion_run (ViaUniquePtr conv) py s = conv py None s"

text \<open>
  The state in which the conversion of alternative \<open>k\<close> is run, following the words
  of the specification: alternative 0 is tried in the state of the call; alternative
  \<open>k + 1\<close> is tried if alternative \<open>k\<close> was tried and its conversion returned false,
  in the state that conversion left, with the error indicator cleared. \<open>None\<close> means
  that alternative \<open>k\<close> is not tried.
\<close>

fun tried_in :: "nat \<Rightarrow> 'v conversion list \<Rightarrow> pyobj \<Rightarrow> pystate \<Rightarrow> pystate option" where
  "tried_in 0 alts py s = Some s"
| "tried_in (Suc k) alts py s =
     (case tried_in k alts py s of
        None \<Rightarrow> None
      | Some sk \<Rightarrow>
          (case conversion_run (alts ! k) py sk of
             (False, _, s') \<Rightarrow> Some (PyErr_Clear s')
           | (True, _, _) \<Rightarrow> None))"

text \<open>
  The conversion of an alternative of type \<^verbatim>\<open>T\<close>, seen on the sum \<open>'v\<close> of the
  alternative types: \<^verbatim>\<open>Clif_PyObjAs(obj, &v->emplace<I>())\<close> runs the conversion of
  \<^verbatim>\<open>T\<close> on the freshly constructed alternative.
\<close>

definition as_alternative :: "('a \<Rightarrow> 'v) \<Rightarrow> 'a from_host \<Rightarrow> 'a \<Rightarrow> 'v from_host" where
  "as_alternative into conv dflt py c s =
     (let (ok, x, s') = conv py dflt s in (ok, into x, s'))"

text \<open>
  Example: four alternatives over \<^verbatim>\<open>int\<close>, \<^verbatim>\<open>std::vector<std::string>\<close> and
  \<^verbatim>\<open>std::string\<close> that use the three strategies: the first and the last are
  converted directly, the second through a conversion into \<^verbatim>\<open>std::unique_ptr\<close>, the
  third through a conversion into \<^verbatim>\<open>std::optional\<close>.
\<close>

datatype example_value = Number "32 word" | Items "string list" | Text string

definition strategy_alts :: "example_value conversion list" where
  "strategy_alts =
     [Direct (Number 0) (as_alternative Number Clif_PyObjAs_int 0),
      ViaUniquePtr
        (Clif_PyObjAs_unique_ptr
           (as_alternative Items (Clif_PyObjAs_vector Clif_PyObjAs_string []) [])
           (Items [])),
      ViaOptional
        (Clif_PyObjAs_optional (as_alternative Text Clif_PyObjAs_string []) (Text [])),
      Direct (Text []) (as_alternative Text Clif_PyObjAs_string [])]"

text \<open>
  Converting the elements of a container in order, each in the state its predecessor
  left, up to the first conversion that fails: the host values obtained, whether all
  elements were converted, and the state after the last conversion made.
\<close>

fun convert_elements ::
  "'a to_host \<Rightarrow> PostConv \<Rightarrow> 'a list \<Rightarrow> pystate \<Rightarrow> pyobj list \<times> bool \<times> pystate" where
  "convert_elements conv pct [] s = ([], True, s)"
| "convert_elements conv pct (j # js) s =
     (case conv j pct s of
        (None, s') \<Rightarrow> ([], False, s')
      | (Some v, s') \<Rightarrow>
          (case convert_elements conv pct js s' of (vs, ok, s'') \<Rightarrow> (v # vs, ok, s'')))"






text \<open>
  The host values that the conversion to the host can return for \<open>x\<close> under the
  default policy, and the sets in which no two different elements have host values that
  the host considers equal.
\<close>

definition host_forms :: "'a to_host \<Rightarrow> 'a \<Rightarrow> pyobj set" where
  "host_forms to_h x = {py. \<exists>s s'. to_h x PostConv_default s = (Some py, s')}"




text \<open>
  Example: the conversion to the host of the alternatives of
  \<^verbatim>\<open>std::variant<bool, int>\<close>, over the sum of the two alternative types.
\<close>

definition flag_or_count_to_host :: "(bool + 32 word) to_host" where
  "flag_or_count_to_host x pc s =
     (case x of
        Inl b \<Rightarrow> Clif_PyObjFrom_bool b pc s
      | Inr n \<Rightarrow> Clif_PyObjFrom_signed n pc s)"

section \<open>Facts about the state operations\<close>

lemma err_PyErr_SetString [simp]: "err (PyErr_SetString e m s) = Some (e, m)"
  by (simp add: PyErr_SetString_def)

lemma refs_PyErr_SetString [simp]: "refs (PyErr_SetString e m s) = refs s"
  by (simp add: PyErr_SetString_def)

lemma avail_PyErr_SetString [simp]: "avail (PyErr_SetString e m s) = avail s"
  by (simp add: PyErr_SetString_def)

lemma err_PyErr_Clear [simp]: "err (PyErr_Clear s) = None"
  by (simp add: PyErr_Clear_def)

lemma refs_PyErr_Clear [simp]: "refs (PyErr_Clear s) = refs s"
  by (simp add: PyErr_Clear_def)

lemma PyErr_Clear_idem [simp]: "err s = None \<Longrightarrow> PyErr_Clear s = s"
  by (simp add: PyErr_Clear_def)

lemma PyErr_Clear_SetString [simp]: "PyErr_Clear (PyErr_SetString e m s) = PyErr_Clear s"
  by (simp add: PyErr_Clear_def PyErr_SetString_def)

lemma err_Py_DECREF [simp]: "err (Py_DECREF py s) = err s"
  by (simp add: Py_DECREF_def)

lemma refs_Py_DECREF [simp]: "refs (Py_DECREF py s) = refs s @ [Decref py]"
  by (simp add: Py_DECREF_def)

lemma err_Py_INCREF [simp]: "err (Py_INCREF py s) = err s"
  by (simp add: Py_INCREF_def)

lemma refs_Py_INCREF [simp]: "refs (Py_INCREF py s) = refs s @ [Incref py]"
  by (simp add: Py_INCREF_def)

section \<open>Narrowing to an unsigned 8-bit destination\<close>

lemma uint_word64_of_int:
  "0 \<le> n \<Longrightarrow> n < 2 ^ 64 \<Longrightarrow> uint (word_of_int n :: 64 word) = n"
  by (simp add: uint_word_of_int take_bit_int_eq_self)

lemma above_UCHAR_MAX_iff:
  "0 \<le> n \<Longrightarrow> n < 2 ^ 64 \<Longrightarrow> ((word_of_int n :: 64 word) > UCHAR_MAX) = (255 < n)"
  by (simp add: word_less_def UCHAR_MAX_def uint_word64_of_int)

lemma uint_narrowed:
  "0 \<le> n \<Longrightarrow> n \<le> 255 \<Longrightarrow> uint (ucast (word_of_int n :: 64 word) :: 8 word) = n"
  by (simp add: unsigned_ucast_eq uint_word64_of_int take_bit_int_eq_self)

lemma long_value_PyLong_Check: "long_value py = Some n \<Longrightarrow> PyLong_Check py"
  by (cases py) simp_all

lemma long_value_None_not_PyLong: "long_value py = None \<Longrightarrow> \<not> PyLong_Check py"
  by (cases py) simp_all

text \<open>
  C3. \<^verbatim>\<open>Clif_PyObjAs\<close> into \<^verbatim>\<open>unsigned char\<close> reads the host integer through
  \<^verbatim>\<open>unsigned long\<close> and then checks it against \<^verbatim>\<open>UCHAR_MAX\<close>. Called with no
  exception pending on a host integer of value \<open>n\<close>, it succeeds exactly when
  \<open>0 \<le> n \<le> 255\<close>; then the destination holds \<open>n\<close> and the state is unchanged.
  Otherwise it returns false, leaves the destination as it was and has a range error
  pending: \<^verbatim>\<open>OverflowError\<close> when \<open>n\<close> does not fit \<^verbatim>\<open>unsigned long\<close> (as for
  \<open>-5\<close>), \<^verbatim>\<open>ValueError\<close> when it fits but exceeds 255 (as for 300). A host value
  that is not an integer is refused with \<^verbatim>\<open>TypeError\<close>. So whenever the call
  succeeds the destination holds the value of the host integer: nothing out of bounds
  is truncated into it.
\<close>

theorem unsigned_char_range_checked:
  assumes "err s = None"
    and "Clif_PyObjAs_unsigned_char py c s = (ok, c', s')"
  shows "(case long_value py of
            None \<Rightarrow> \<not> ok \<and> c' = c \<and> err s' = Some (TypeError, ''expecting int'')
          | Some n \<Rightarrow>
              (ok \<longleftrightarrow> 0 \<le> n \<and> n \<le> 255) \<and>
              (ok \<longrightarrow> uint c' = n \<and> s' = s) \<and>
              (\<not> ok \<longrightarrow> c' = c \<and>
                 (\<exists>msg. err s' =
                    Some (if n < 0 \<or> 2 ^ 64 \<le> n then OverflowError else ValueError, msg))))"
proof (cases "long_value py")
  case None
  with assms show ?thesis
    by (auto simp: Clif_PyObjAs_unsigned_char_def Clif_PyObjAs_unsigned_long_def
        long_value_None_not_PyLong)
next
  case (Some n)
  then have chk: "PyLong_Check py"
    by (rule long_value_PyLong_Check)
  consider "n < 0" | "2 ^ 64 \<le> n" | "0 \<le> n" "n \<le> 255" | "255 < n" "n < 2 ^ 64"
    by linarith
  then show ?thesis
  proof cases
    case 1
    with assms Some chk show ?thesis
      by (auto simp: Clif_PyObjAs_unsigned_char_def Clif_PyObjAs_unsigned_long_def
          PyLong_AsUnsignedLong_def PyErr_Occurred_def PyErr_SetString_def)
  next
    case 2
    with assms Some chk show ?thesis
      by (auto simp: Clif_PyObjAs_unsigned_char_def Clif_PyObjAs_unsigned_long_def
          PyLong_AsUnsignedLong_def PyErr_Occurred_def PyErr_SetString_def)
  next
    case 3
    then have "n < 2 ^ 64" by simp
    with 3 assms Some chk show ?thesis
      by (auto simp: Clif_PyObjAs_unsigned_char_def Clif_PyObjAs_unsigned_long_def
          PyLong_AsUnsignedLong_def PyErr_Occurred_def above_UCHAR_MAX_iff uint_narrowed)
  next
    case 4
    with assms Some chk show ?thesis
      by (auto simp: Clif_PyObjAs_unsigned_char_def Clif_PyObjAs_unsigned_long_def
          PyLong_AsUnsignedLong_def PyErr_Occurred_def PyErr_SetString_def
          above_UCHAR_MAX_iff)
  qed
qed

text \<open>The three values of the scenario: 200 is stored, \<open>-5\<close> and 300 are refused.\<close>

theorem unsigned_char_range_checked_witness:
  "(\<exists>c' s'. Clif_PyObjAs_unsigned_char (PyLong 200) 7
              \<lparr>err = None, refs = [], avail = 0\<rparr> = (True, c', s') \<and> uint c' = 200) \<and>
   (\<exists>s'. Clif_PyObjAs_unsigned_char (PyLong (- 5)) 7
              \<lparr>err = None, refs = [], avail = 0\<rparr> = (False, 7, s') \<and>
          (\<exists>msg. err s' = Some (OverflowError, msg))) \<and>
   (\<exists>s'. Clif_PyObjAs_unsigned_char (PyLong 300) 7
              \<lparr>err = None, refs = [], avail = 0\<rparr> = (False, 7, s') \<and>
          (\<exists>msg. err s' = Some (ValueError, msg)))"
proof -
  let ?s = "\<lparr>err = None, refs = [], avail = 0\<rparr>"
  have e: "err ?s = None" by simp
  obtain ok1 c1 s1 where r1: "Clif_PyObjAs_unsigned_char (PyLong 200) 7 ?s = (ok1, c1, s1)"
    by (cases "Clif_PyObjAs_unsigned_char (PyLong 200) 7 ?s") auto
  obtain ok2 c2 s2 where r2: "Clif_PyObjAs_unsigned_char (PyLong (- 5)) 7 ?s = (ok2, c2, s2)"
    by (cases "Clif_PyObjAs_unsigned_char (PyLong (- 5)) 7 ?s") auto
  obtain ok3 c3 s3 where r3: "Clif_PyObjAs_unsigned_char (PyLong 300) 7 ?s = (ok3, c3, s3)"
    by (cases "Clif_PyObjAs_unsigned_char (PyLong 300) 7 ?s") auto
  from unsigned_char_range_checked [OF e r1]
  have "ok1 \<and> uint c1 = 200" by simp
  moreover from unsigned_char_range_checked [OF e r2]
  have "\<not> ok2 \<and> c2 = 7 \<and> (\<exists>msg. err s2 = Some (OverflowError, msg))" by simp
  moreover from unsigned_char_range_checked [OF e r3]
  have "\<not> ok3 \<and> c3 = 7 \<and> (\<exists>msg. err s3 = Some (ValueError, msg))" by simp
  ultimately show ?thesis
    using r1 r2 r3 by simp
qed

section \<open>Ownership wrappers after a failed conversion\<close>

text \<open>
  C5, as stated, at a concrete input: the conversion into a \<^verbatim>\<open>std::unique_ptr<int>\<close>
  that holds 7 fails on a \<^verbatim>\<open>str\<close>, and the destination still holds 7 afterwards;
  it is not left empty.
\<close>

theorem unique_ptr_failure_keeps_destination:
  "Clif_PyObjAs_unique_ptr Clif_PyObjAs_int 0 (PyUnicode [120]) (Some 7)
      \<lparr>err = None, refs = [], avail = 0\<rparr>
   = (False, Some 7, \<lparr>err = Some (TypeError, ''expecting int''), refs = [], avail = 0\<rparr>) \<and>
   Some (7 :: 32 word) \<noteq> None"
  by (simp add: Clif_PyObjAs_unique_ptr_def Clif_PyObjAs_int_def PyErr_SetString_def)

text \<open>
  C5, amended. When the conversion of a wrapper fails, a \<^verbatim>\<open>std::optional\<close>
  destination is left empty, and a \<^verbatim>\<open>std::unique_ptr\<close> destination is left exactly
  as it was before the call (null only if it was null): the payload of the failed
  conversion lives in a temporary that is dropped. In neither case does the destination
  hold the half-converted payload.
\<close>

theorem wrapper_failure_destination:
  "(Clif_PyObjAs_optional conv dflt py c s = (False, c', s') \<longrightarrow> c' = None) \<and>
   (Clif_PyObjAs_unique_ptr conv dflt py c s = (False, c', s') \<longrightarrow> c' = c)"
  by (auto simp: Clif_PyObjAs_optional_def Clif_PyObjAs_unique_ptr_def
           split: if_splits prod.splits)

theorem wrapper_failure_destination_witness:
  "Clif_PyObjAs_optional Clif_PyObjAs_int 0 (PyUnicode [120]) (Some 7)
      \<lparr>err = None, refs = [], avail = 0\<rparr>
     = (False, None, \<lparr>err = Some (TypeError, ''expecting int''), refs = [], avail = 0\<rparr>) \<and>
   Clif_PyObjAs_unique_ptr Clif_PyObjAs_int 0 (PyUnicode [120]) None
      \<lparr>err = None, refs = [], avail = 0\<rparr>
     = (False, None, \<lparr>err = Some (TypeError, ''expecting int''), refs = [], avail = 0\<rparr>)"
  using wrapper_failure_destination [of Clif_PyObjAs_int 0 "PyUnicode [120]" "Some 7"
      "\<lparr>err = None, refs = [], avail = 0\<rparr>" None
      "\<lparr>err = Some (TypeError, ''expecting int''), refs = [], avail = 0\<rparr>"]
  by (simp add: Clif_PyObjAs_optional_def Clif_PyObjAs_unique_ptr_def Clif_PyObjAs_int_def
      PyErr_SetString_def)

section \<open>Truthiness and hash adapters\<close>

text \<open>
  C6, as stated, at a concrete input: for a \<^verbatim>\<open>str\<close> result \<^verbatim>\<open>as_bool\<close> returns
  \<open>-1\<close> with a \<^verbatim>\<open>ValueError\<close> pending, not a \<^verbatim>\<open>TypeError\<close>.
\<close>

theorem as_bool_raises_ValueError:
  "as_bool (PyUnicode [120]) \<lparr>err = None, refs = [], avail = 0\<rparr>
     = (- 1, \<lparr>err = Some (ValueError, ''__nonzero__ must return int or bool''),
             refs = [Decref (PyUnicode [120])], avail = 0\<rparr>) \<and>
   ValueError \<noteq> TypeError"
  by (simp add: as_bool_def Py_DECREF_def PyErr_SetString_def)

text \<open>
  C6, amended. Given a result whose type is exactly \<^verbatim>\<open>int\<close>, or \<^verbatim>\<open>bool\<close>,
  \<^verbatim>\<open>as_bool\<close> returns its truth value, 0 or 1, and leaves the error indicator as
  it was; for any other result (an instance of another subclass of \<^verbatim>\<open>int\<close>
  included) it returns \<open>-1\<close> with a \<^verbatim>\<open>ValueError\<close> pending. In every case it
  releases the result exactly once.
\<close>

theorem as_bool_adapter:
  assumes "as_bool res s = (r, s')"
  shows "released res s' = released res s + 1 \<and>
     (if PyLong_CheckExact res \<or> PyBool_Check res
      then (r = 0 \<or> r = 1) \<and> (r = 1 \<longleftrightarrow> long_value res \<noteq> Some 0) \<and> err s' = err s
      else r = - 1 \<and> err s' = Some (ValueError, ''__nonzero__ must return int or bool''))"
  using assms
  by (cases res) (auto simp: as_bool_def released_def split: if_splits)

theorem as_bool_adapter_witness:
  "as_bool (PyLong 5) \<lparr>err = None, refs = [], avail = 0\<rparr>
     = (1, \<lparr>err = None, refs = [Decref (PyLong 5)], avail = 0\<rparr>) \<and>
   released (PyLong 5) \<lparr>err = None, refs = [Decref (PyLong 5)], avail = 0\<rparr> = 1"
  using as_bool_adapter [of "PyLong 5" "\<lparr>err = None, refs = [], avail = 0\<rparr>" 1
      "\<lparr>err = None, refs = [Decref (PyLong 5)], avail = 0\<rparr>"]
  by (simp add: as_bool_def released_def Py_DECREF_def)

text \<open>
  C7. Called with no exception pending, \<^verbatim>\<open>as_hash\<close> fails with \<open>-1\<close> and a
  \<^verbatim>\<open>TypeError\<close> pending when the result is not an \<^verbatim>\<open>int\<close>. When the result is an
  \<^verbatim>\<open>int\<close> too large for \<^verbatim>\<open>long\<close>, the overflow error is cleared and the answer
  is whatever the generic hashing operation of the runtime gives for the result
  object, called with no exception pending. An \<^verbatim>\<open>int\<close> that fits is returned as
  it is. The result is released on every path.
\<close>

theorem as_hash_adapter:
  assumes "err s = None"
  shows "(\<not> PyLong_Check res \<longrightarrow>
            as_hash H res s =
              (- 1, Py_DECREF res (PyErr_SetString TypeError ''__hash__ must return int'' s))) \<and>
         (long_value res = Some n \<and> (n < - (2 ^ 63) \<or> 2 ^ 63 \<le> n) \<longrightarrow>
            as_hash H res s = (case H res s of (h, s2) \<Rightarrow> (h, Py_DECREF res s2))) \<and>
         (long_value res = Some n \<and> - (2 ^ 63) \<le> n \<and> n < 2 ^ 63 \<longrightarrow>
            as_hash H res s = (word_of_int n, Py_DECREF res s))"
  using assms
  by (auto simp: as_hash_def PyLong_AsLong_def PyErr_Occurred_def
      PyErr_ExceptionMatches_def long_value_PyLong_Check split: prod.splits)

theorem as_hash_adapter_witness:
  "as_hash (\<lambda>py s. (long_hash (case long_value py of None \<Rightarrow> 0 | Some n \<Rightarrow> n), s))
      (PyLong (2 ^ 63)) \<lparr>err = None, refs = [], avail = 0\<rparr>
     = (4, \<lparr>err = None, refs = [Decref (PyLong (2 ^ 63))], avail = 0\<rparr>) \<and>
   as_hash (\<lambda>py s. (long_hash (case long_value py of None \<Rightarrow> 0 | Some n \<Rightarrow> n), s))
      (PyBytes ''a'') \<lparr>err = None, refs = [], avail = 0\<rparr>
     = (- 1, \<lparr>err = Some (TypeError, ''__hash__ must return int''),
             refs = [Decref (PyBytes ''a'')], avail = 0\<rparr>) \<and>
   as_hash (\<lambda>py s. (long_hash (case long_value py of None \<Rightarrow> 0 | Some n \<Rightarrow> n), s))
      (PyLong 12) \<lparr>err = None, refs = [], avail = 0\<rparr>
     = (12, \<lparr>err = None, refs = [Decref (PyLong 12)], avail = 0\<rparr>)"
proof -
  let ?H = "\<lambda>py s. (long_hash (case long_value py of None \<Rightarrow> 0 | Some n \<Rightarrow> n), s :: pystate)"
  let ?s = "\<lparr>err = None, refs = [], avail = 0\<rparr>"
  have e: "err ?s = None" by simp
  have h: "long_hash (2 ^ 63) = 4"
    by (simp add: long_hash_def)
  note a = as_hash_adapter [OF e, of "PyLong (2 ^ 63)" ?H "2 ^ 63"]
  note b = as_hash_adapter [OF e, of "PyBytes ''a''" ?H 0]
  note c = as_hash_adapter [OF e, of "PyLong 12" ?H 12]
  from a b c h show ?thesis
    by (simp add: Py_DECREF_def PyErr_SetString_def)
qed

section \<open>Exhaustion of the iterator\<close>

lemma Next_null_fixed: "self_ptr it = None \<Longrightarrow> Next it st = Some (None, it, st)"
  by (simp add: Next_def)

lemma Next_times_null_fixed:
  "self_ptr it = None \<Longrightarrow> Next_times n it st = Some (None, it, st)"
  by (induction n) (simp_all add: Next_null_fixed)

lemma owners_shared_ptr_reset: "owners h (shared_ptr_reset h st) = owners h st - 1"
  by (simp add: owners_def shared_ptr_reset_def split: option.splits)

lemma owners_shared_ptr_reset_other:
  "h' \<noteq> h \<Longrightarrow> owners h' (shared_ptr_reset h st) = owners h' st"
  by (simp add: owners_def shared_ptr_reset_def split: option.splits)

text \<open>
  C8. When \<^verbatim>\<open>Next\<close> returns null, the iterator holds no handle afterwards; every
  later call, however many and whatever has happened to the store in between, returns
  null again and changes neither the iterator nor the store, so the handle is never
  taken again. If the iterator held a handle before the call (the first exhaustion),
  that call dropped exactly one owner of that container and touched no other.
\<close>

theorem Next_exhaustion_terminal:
  assumes "Next it st = Some (None, it', st')"
  shows "self_ptr it' = None \<and>
         (\<forall>n st''. Next_times n it' st'' = Some (None, it', st'')) \<and>
         (case self_ptr it of
            None \<Rightarrow> st' = st
          | Some h \<Rightarrow>
              st' = shared_ptr_reset h st \<and> owners h st' = owners h st - 1 \<and>
              (\<forall>h'. h' \<noteq> h \<longrightarrow> owners h' st' = owners h' st))"
proof -
  have "self_ptr it' = None"
    using assms by (auto simp: Next_def split: option.splits if_splits)
  moreover have "case self_ptr it of
            None \<Rightarrow> st' = st
          | Some h \<Rightarrow>
              st' = shared_ptr_reset h st \<and> owners h st' = owners h st - 1 \<and>
              (\<forall>h'. h' \<noteq> h \<longrightarrow> owners h' st' = owners h' st)"
    using assms
    by (auto simp: Next_def owners_shared_ptr_reset owners_shared_ptr_reset_other
             split: option.splits if_splits)
  ultimately show ?thesis
    by (simp add: Next_times_null_fixed)
qed

theorem Next_exhaustion_terminal_witness:
  "Next \<lparr>self_ptr = Some 0, it_pos = 2\<rparr> [0 \<mapsto> \<lparr>object = [10, 20 :: nat], use_count = 2\<rparr>]
     = Some (None, \<lparr>self_ptr = None, it_pos = 2\<rparr>,
             [0 \<mapsto> \<lparr>object = [10, 20], use_count = 1\<rparr>]) \<and>
   owners 0 [0 \<mapsto> \<lparr>object = [10, 20 :: nat], use_count = 2\<rparr>] = 2 \<and>
   owners 0 [0 \<mapsto> \<lparr>object = [10, 20 :: nat], use_count = 1\<rparr>] = 1 \<and>
   Next_times 3 \<lparr>self_ptr = None, it_pos = 2\<rparr>
       [0 \<mapsto> \<lparr>object = [10, 20 :: nat], use_count = 1\<rparr>]
     = Some (None, \<lparr>self_ptr = None, it_pos = 2\<rparr>,
             [0 \<mapsto> \<lparr>object = [10, 20], use_count = 1\<rparr>])"
proof -
  let ?it = "\<lparr>self_ptr = Some 0, it_pos = 2\<rparr>"
  let ?st = "[0 \<mapsto> \<lparr>object = [10, 20 :: nat], use_count = 2\<rparr>]"
  let ?it' = "\<lparr>self_ptr = None, it_pos = 2\<rparr>"
  let ?st' = "[0 \<mapsto> \<lparr>object = [10, 20 :: nat], use_count = 1\<rparr>]"
  have r: "Next ?it ?st = Some (None, ?it', ?st')"
    by (simp add: Next_def shared_ptr_reset_def)
  from Next_exhaustion_terminal [OF r]
  have "Next_times 3 ?it' ?st' = Some (None, ?it', ?st')"
    by blast
  with r show ?thesis
    by (simp add: owners_def)
qed

section \<open>Wrapping a host callable\<close>

text \<open>
  C9. \<^verbatim>\<open>Clif_PyObjAs\<close> into a \<^verbatim>\<open>std::function\<close> of \<open>nargs\<close> arguments fails with
  \<^verbatim>\<open>TypeError\<close> when the host value is not callable, and with the arity-mismatch
  error when it is a callable of another arity. Both checks are made by the conversion
  itself, before a function object exists that could be invoked: whenever the
  conversion fails the destination is as it was and no reference to the callable was
  taken. On success the destination holds the new function object and the callable
  has been retained once.
\<close>

theorem function_construction_checks:
  "(\<not> PyCallable_Check py \<longrightarrow>
      Clif_PyObjAs_function nargs py c pc s =
        (False, c, PyErr_SetString TypeError ''callable expected'' s)) \<and>
   (py = PyFunction arity \<and> arity \<noteq> nargs \<longrightarrow>
      Clif_PyObjAs_function nargs py c pc s = (False, c, s\<lparr>err := Some arity_mismatch\<rparr>)) \<and>
   (py = PyFunction nargs \<longrightarrow>
      Clif_PyObjAs_function nargs py c pc s =
        (True, Some \<lparr>callback = py, pcv = pc\<rparr>, Py_INCREF py s)) \<and>
   (Clif_PyObjAs_function nargs py c pc s = (False, c', s') \<longrightarrow> c' = c \<and> refs s' = refs s)"
  by (auto simp: Clif_PyObjAs_function_def CallableNeedsNarguments_def Func_new_def
                 PyErr_SetString_def
           split: pyobj.splits if_splits prod.splits bool.splits)

text \<open>A callable of arity 2 for a signature of 3 arguments, a non-callable, and a match.\<close>

theorem function_construction_checks_witness:
  "Clif_PyObjAs_function 3 (PyFunction 2) None PostConv_default
      \<lparr>err = None, refs = [], avail = 0\<rparr>
     = (False, None, \<lparr>err = Some arity_mismatch, refs = [], avail = 0\<rparr>) \<and>
   Clif_PyObjAs_function 3 (PyLong 2) None PostConv_default
      \<lparr>err = None, refs = [], avail = 0\<rparr>
     = (False, None, \<lparr>err = Some (TypeError, ''callable expected''), refs = [], avail = 0\<rparr>) \<and>
   Clif_PyObjAs_function 3 (PyFunction 3) None PostConv_default
      \<lparr>err = None, refs = [], avail = 0\<rparr>
     = (True, Some \<lparr>callback = PyFunction 3, pcv = PostConv_default\<rparr>,
        \<lparr>err = None, refs = [Incref (PyFunction 3)], avail = 0\<rparr>)"
  using function_construction_checks [of "PyFunction 2" 3 None PostConv_default
          "\<lparr>err = None, refs = [], avail = 0\<rparr>" 2 None
          "\<lparr>err = Some arity_mismatch, refs = [], avail = 0\<rparr>"]
        function_construction_checks [of "PyLong 2" 3 None PostConv_default
          "\<lparr>err = None, refs = [], avail = 0\<rparr>" 2 None
          "\<lparr>err = Some arity_mismatch, refs = [], avail = 0\<rparr>"]
        function_construction_checks [of "PyFunction 3" 3 None PostConv_default
          "\<lparr>err = None, refs = [], avail = 0\<rparr>" 2 None
          "\<lparr>err = Some arity_mismatch, refs = [], avail = 0\<rparr>"]
  by (simp add: PyErr_SetString_def Py_INCREF_def)

section \<open>Pairs are converted atomically\<close>

text \<open>
  C10. \<^verbatim>\<open>Clif_PyObjAs\<close> into a \<^verbatim>\<open>std::pair\<close> converts both elements into locals
  and assigns the destination last: whenever it returns false, whatever the reason,
  the destination is exactly as before the call, and when it returns true both
  element conversions have succeeded and the destination holds their results.
  A container conversion has no such guarantee: the third statement is a
  \<^verbatim>\<open>std::vector\<close> conversion that fails on its second element and leaves the
  destination cleared and refilled with the first.
\<close>

theorem pair_destination_atomic:
  "(Clif_PyObjAs_pair convT dfltT convU dfltU py c s = (False, c', s') \<longrightarrow> c' = c) \<and>
   (Clif_PyObjAs_pair convT dfltT convU dfltU py c s = (True, c', s') \<longrightarrow>
      (\<exists>item0 item1 t0 t0' t1 t1'.
          convT item0 dfltT t0 = (True, fst c', t0') \<and>
          convU item1 dfltU t1 = (True, snd c', t1'))) \<and>
   Clif_PyObjAs_vector Clif_PyObjAs_string []
       (PyList [Some (PyBytes ''a''), Some (PyLong 1)]) [''old'']
       \<lparr>err = None, refs = [], avail = 0\<rparr>
     = (False, [''a''],
        \<lparr>err = Some (TypeError, ''expecting str''),
           refs = [Decref (PyBytes ''a''), Decref (PyLong 1), Decref (PyIter [] None)],
           avail = 0\<rparr>)"
proof (intro conjI impI)
  assume "Clif_PyObjAs_pair convT dfltT convU dfltU py c s = (False, c', s')"
  then show "c' = c"
    by (auto simp: Clif_PyObjAs_pair_def split: prod.splits if_splits option.splits)
next
  assume "Clif_PyObjAs_pair convT dfltT convU dfltU py c s = (True, c', s')"
  then show "\<exists>item0 item1 t0 t0' t1 t1'.
          convT item0 dfltT t0 = (True, fst c', t0') \<and>
          convU item1 dfltU t1 = (True, snd c', t1')"
    by (fastforce simp: Clif_PyObjAs_pair_def split: prod.splits if_splits option.splits)
next
  show "Clif_PyObjAs_vector Clif_PyObjAs_string []
       (PyList [Some (PyBytes ''a''), Some (PyLong 1)]) [''old'']
       \<lparr>err = None, refs = [], avail = 0\<rparr>
     = (False, [''a''],
        \<lparr>err = Some (TypeError, ''expecting str''),
           refs = [Decref (PyBytes ''a''), Decref (PyLong 1), Decref (PyIter [] None)],
           avail = 0\<rparr>)"
    by (simp add: Clif_PyObjAs_vector_def IterToCont_def PyObject_GetIter_def
        iter_of_slots_def IterToCont_loop.simps PyIter_Next_def Clif_PyObjAs_string_def
        ObjToStr_def Py_DECREF_def PyErr_SetString_def)
qed

theorem pair_destination_atomic_witness:
  "Clif_PyObjAs_pair Clif_PyObjAs_string [] Clif_PyObjAs_int 0
       (PyTuple [Some (PyBytes ''k''), Some (PyBytes ''x'')]) (''old'', 9)
       \<lparr>err = None, refs = [], avail = 0\<rparr>
     = (False, (''old'', 9),
        \<lparr>err = Some (TypeError, ''expecting int''),
           refs = [Decref (PyBytes ''k''), Decref (PyBytes ''x'')], avail = 0\<rparr>) \<and>
   Clif_PyObjAs_pair Clif_PyObjAs_string [] Clif_PyObjAs_int 0
       (PyTuple [Some (PyBytes ''k''), Some (PyLong 5)]) (''old'', 9)
       \<lparr>err = None, refs = [], avail = 0\<rparr>
     = (True, (''k'', 5),
        \<lparr>err = None, refs = [Decref (PyBytes ''k''), Decref (PyLong 5)], avail = 0\<rparr>)"
  using pair_destination_atomic [of Clif_PyObjAs_string "[]" Clif_PyObjAs_int 0
          "PyTuple [Some (PyBytes ''k''), Some (PyBytes ''x'')]" "(''old'', 9)"
          "\<lparr>err = None, refs = [], avail = 0\<rparr>" "(''old'', 9)"
          "\<lparr>err = Some (TypeError, ''expecting int''),
             refs = [Decref (PyBytes ''k''), Decref (PyBytes ''x'')], avail = 0\<rparr>"]
  by (simp add: Clif_PyObjAs_pair_def PySequence_Length_def PySequence_ITEM_def
      Clif_PyObjAs_string_def ObjToStr_def Clif_PyObjAs_int_def PyLong_AsLong_def
      PyErr_Occurred_def INT_MAX_def INT_MIN_def Py_XDECREF_def Py_DECREF_def
      PyErr_SetString_def)

section \<open>First match wins in a variant\<close>

lemma Convert_rejected:
  "conversion_run c py s = (False, val, s') \<Longrightarrow> \<exists>v'. Convert I c py v s = Some (False, v', s')"
  by (cases c) (auto split: prod.splits)

lemma Convert_accepted:
  "conversion_run c py s = (True, Some x, s') \<Longrightarrow>
     Convert I c py v s = Some (True, \<lparr>index = I, held = x\<rparr>, s')"
  by (cases c) (auto split: prod.splits)

lemma Convert_undefined:
  "conversion_run c py s = (True, None, s') \<Longrightarrow> Convert I c py v s = None"
  by (cases c) (auto split: prod.splits)

lemma tried_in_Suc_D:
  assumes "tried_in (Suc k) alts py s = Some s''"
  obtains sk val s' where "tried_in k alts py s = Some sk"
    and "conversion_run (alts ! k) py sk = (False, val, s')" and "s'' = PyErr_Clear s'"
  using assms by (auto split: option.splits prod.splits bool.splits)

lemma tried_in_cleared: "tried_in (Suc k) alts py s = Some sk \<Longrightarrow> err sk = None"
  by (erule tried_in_Suc_D) simp

lemma TryAll_from_tried_in:
  "tried_in k alts py s = Some sk \<Longrightarrow> k \<le> length alts \<Longrightarrow>
     \<exists>vk. PyObjAsVariantTryAll 0 alts py v s = PyObjAsVariantTryAll k alts py vk sk"
proof (induction k arbitrary: sk)
  case 0
  then show ?case by auto
next
  case (Suc k)
  from Suc.prems(1) obtain sk' val s' where
    a: "tried_in k alts py s = Some sk'" and
    b: "conversion_run (alts ! k) py sk' = (False, val, s')" and
    c: "sk = PyErr_Clear s'"
    by (rule tried_in_Suc_D)
  from Suc.prems(2) have k: "k < length alts" by simp
  from Suc.IH [OF a] k obtain vk' where
    e: "PyObjAsVariantTryAll 0 alts py v s = PyObjAsVariantTryAll k alts py vk' sk'"
    by auto
  from Convert_rejected [OF b, of k vk'] obtain v' where
    r: "PyObjAsVariantAt k alts py vk' sk' = Some (False, v', s')"
    by (auto simp: PyObjAsVariantAt_def)
  have "PyObjAsVariantTryAll k alts py vk' sk' = PyObjAsVariantTryAll (Suc k) alts py v' sk"
    using k r c by (subst PyObjAsVariantTryAll.simps) simp
  with e show ?case by auto
qed

lemma tried_in_progress:
  "m \<le> length alts \<Longrightarrow>
     (\<exists>sm. tried_in m alts py s = Some sm) \<or>
     (\<exists>k sk val s'. k < m \<and> tried_in k alts py s = Some sk \<and>
        conversion_run (alts ! k) py sk = (True, val, s'))"
proof (induction m)
  case 0
  then show ?case by simp
next
  case (Suc m)
  then have "m \<le> length alts" by simp
  from Suc.IH [OF this] show ?case
  proof
    assume "\<exists>sm. tried_in m alts py s = Some sm"
    then obtain sm where a: "tried_in m alts py s = Some sm" by blast
    obtain ok val s' where r: "conversion_run (alts ! m) py sm = (ok, val, s')"
      by (cases "conversion_run (alts ! m) py sm") auto
    show ?thesis
    proof (cases ok)
      case True
      with a r have "\<exists>k sk val s'. k < Suc m \<and> tried_in k alts py s = Some sk \<and>
          conversion_run (alts ! k) py sk = (True, val, s')"
        by (intro exI [of _ m] exI [of _ sm] exI [of _ val] exI [of _ s']) simp
      then show ?thesis ..
    next
      case False
      with a r have "tried_in (Suc m) alts py s = Some (PyErr_Clear s')"
        by simp
      then show ?thesis by blast
    qed
  next
    assume "\<exists>k sk val s'. k < m \<and> tried_in k alts py s = Some sk \<and>
        conversion_run (alts ! k) py sk = (True, val, s')"
    then show ?thesis using less_Suc_eq by blast
  qed
qed

lemma variant_commits:
  assumes "k < length alts" "tried_in k alts py s = Some sk"
    "conversion_run (alts ! k) py sk = (True, Some x, s')"
  shows "Clif_PyObjAs_variant alts py v s = Some (True, \<lparr>index = k, held = x\<rparr>, s')"
proof -
  from TryAll_from_tried_in [OF assms(2), of v] assms(1) obtain vk where
    "PyObjAsVariantTryAll 0 alts py v s = PyObjAsVariantTryAll k alts py vk sk"
    by auto
  also have "\<dots> = Some (True, \<lparr>index = k, held = x\<rparr>, s')"
    using assms(1) Convert_accepted [OF assms(3), of k vk]
    by (subst PyObjAsVariantTryAll.simps) (simp add: PyObjAsVariantAt_def)
  finally show ?thesis by (simp add: Clif_PyObjAs_variant_def)
qed

lemma variant_undefined:
  assumes "k < length alts" "tried_in k alts py s = Some sk"
    "conversion_run (alts ! k) py sk = (True, None, s')"
  shows "Clif_PyObjAs_variant alts py v s = None"
proof -
  from TryAll_from_tried_in [OF assms(2), of v] assms(1) obtain vk where
    "PyObjAsVariantTryAll 0 alts py v s = PyObjAsVariantTryAll k alts py vk sk"
    by auto
  also have "\<dots> = None"
    using assms(1) Convert_undefined [OF assms(3), of k vk]
    by (subst PyObjAsVariantTryAll.simps) (simp add: PyObjAsVariantAt_def)
  finally show ?thesis by (simp add: Clif_PyObjAs_variant_def)
qed

lemma variant_all_rejected:
  assumes "tried_in (length alts) alts py s = Some sn"
  shows "\<exists>vn. Clif_PyObjAs_variant alts py v s =
     Some (False, vn, PyErr_SetString TypeError
        ''Failed to convert to any of std::variant alternatives'' sn)"
proof -
  from TryAll_from_tried_in [OF assms, of v] obtain vn where
    "PyObjAsVariantTryAll 0 alts py v s = PyObjAsVariantTryAll (length alts) alts py vn sn"
    by auto
  also have "\<dots> = Some (False, vn, PyErr_SetString TypeError
        ''Failed to convert to any of std::variant alternatives'' sn)"
    by (subst PyObjAsVariantTryAll.simps) simp
  finally show ?thesis by (auto simp: Clif_PyObjAs_variant_def)
qed

lemma variant_cases:
  obtains (all_rejected) sn where "tried_in (length alts) alts py s = Some sn"
  | (undefined) k sk s' where "k < length alts" "tried_in k alts py s = Some sk"
      "conversion_run (alts ! k) py sk = (True, None, s')"
  | (accepted) k sk x s' where "k < length alts" "tried_in k alts py s = Some sk"
      "conversion_run (alts ! k) py sk = (True, Some x, s')"
proof -
  from tried_in_progress [of "length alts" alts py s]
  consider sn where "tried_in (length alts) alts py s = Some sn"
    | k sk val s' where "k < length alts" "tried_in k alts py s = Some sk"
        "conversion_run (alts ! k) py sk = (True, val, s')"
    by auto
  then show thesis
  proof cases
    case 1
    then show ?thesis by (rule all_rejected)
  next
    case 2
    then show ?thesis by (cases val) (auto intro: undefined accepted)
  qed
qed

text \<open>
  C1. \<^verbatim>\<open>Clif_PyObjAs\<close> for \<^verbatim>\<open>std::variant\<close> runs the conversions of the
  alternatives in declared order. (1) The conversion of every alternative after the
  first is run with the error indicator cleared, so the error of a failed attempt
  reaches neither the next attempt nor the caller. (2) If alternative \<open>k\<close> is tried,
  which means that the conversions of all alternatives before it were run and returned
  false, and its own conversion returns true with a value, the call returns true in the
  state that conversion left, and the variant holds that value as alternative \<open>k\<close>.
  (3) If the conversions of all alternatives were run and returned false, the call
  returns false with the single \<^verbatim>\<open>TypeError\<close> set on a cleared indicator. (4, 5)
  Conversely, a true return is the success of the first alternative whose conversion
  succeeds, with the value it produced, and a false return happens only after every
  conversion has returned false. (6) The call has no defined outcome exactly when the
  first conversion that returns true is a wrapper conversion that left its wrapper
  empty, which the source then dereferences.
\<close>

theorem variant_first_match_wins:
  "(\<forall>k sk. tried_in (Suc k) alts py s = Some sk \<longrightarrow> err sk = None) \<and>
   (\<forall>k sk x s'.
       k < length alts \<and> tried_in k alts py s = Some sk \<and>
       conversion_run (alts ! k) py sk = (True, Some x, s') \<longrightarrow>
       Clif_PyObjAs_variant alts py v s = Some (True, \<lparr>index = k, held = x\<rparr>, s')) \<and>
   (\<forall>sn.
       tried_in (length alts) alts py s = Some sn \<longrightarrow>
       (\<exists>vn. Clif_PyObjAs_variant alts py v s =
          Some (False, vn,
                PyErr_SetString TypeError
                  ''Failed to convert to any of std::variant alternatives'' sn))) \<and>
   (\<forall>v' s'.
       Clif_PyObjAs_variant alts py v s = Some (True, v', s') \<longrightarrow>
       (\<exists>k sk. k < length alts \<and> tried_in k alts py s = Some sk \<and>
          conversion_run (alts ! k) py sk = (True, Some (held v'), s') \<and> index v' = k)) \<and>
   (\<forall>v' s'.
       Clif_PyObjAs_variant alts py v s = Some (False, v', s') \<longrightarrow>
       (\<exists>sn. tried_in (length alts) alts py s = Some sn \<and>
          s' = PyErr_SetString TypeError
                 ''Failed to convert to any of std::variant alternatives'' sn)) \<and>
   (Clif_PyObjAs_variant alts py v s = None \<longleftrightarrow>
       (\<exists>k sk s'. k < length alts \<and> tried_in k alts py s = Some sk \<and>
          conversion_run (alts ! k) py sk = (True, None, s')))"
proof (intro conjI allI impI)
  fix k sk
  assume "tried_in (Suc k) alts py s = Some sk"
  then show "err sk = None" by (rule tried_in_cleared)
next
  fix k sk x s'
  assume "k < length alts \<and> tried_in k alts py s = Some sk \<and>
       conversion_run (alts ! k) py sk = (True, Some x, s')"
  then show "Clif_PyObjAs_variant alts py v s = Some (True, \<lparr>index = k, held = x\<rparr>, s')"
    by (blast intro: variant_commits)
next
  fix sn
  assume "tried_in (length alts) alts py s = Some sn"
  then show "\<exists>vn. Clif_PyObjAs_variant alts py v s =
          Some (False, vn,
                PyErr_SetString TypeError
                  ''Failed to convert to any of std::variant alternatives'' sn)"
    by (rule variant_all_rejected)
next
  fix v' s'
  assume r: "Clif_PyObjAs_variant alts py v s = Some (True, v', s')"
  show "\<exists>k sk. k < length alts \<and> tried_in k alts py s = Some sk \<and>
          conversion_run (alts ! k) py sk = (True, Some (held v'), s') \<and> index v' = k"
  proof (cases rule: variant_cases [of alts py s])
    case (all_rejected sn)
    from variant_all_rejected [OF this, of v] r show ?thesis by auto
  next
    case (undefined k sk s'')
    from variant_undefined [OF this, of v] r show ?thesis by simp
  next
    case (accepted k sk x s'')
    from variant_commits [OF this, of v] r have "v' = \<lparr>index = k, held = x\<rparr>" "s'' = s'"
      by simp_all
    with accepted show ?thesis by auto
  qed
next
  fix v' s'
  assume r: "Clif_PyObjAs_variant alts py v s = Some (False, v', s')"
  show "\<exists>sn. tried_in (length alts) alts py s = Some sn \<and>
          s' = PyErr_SetString TypeError
                 ''Failed to convert to any of std::variant alternatives'' sn"
  proof (cases rule: variant_cases [of alts py s])
    case (all_rejected sn)
    from variant_all_rejected [OF this, of v] r all_rejected show ?thesis by auto
  next
    case (undefined k sk s'')
    from variant_undefined [OF this, of v] r show ?thesis by simp
  next
    case (accepted k sk x s'')
    from variant_commits [OF this, of v] r show ?thesis by simp
  qed
next
  show "Clif_PyObjAs_variant alts py v s = None \<longleftrightarrow>
       (\<exists>k sk s'. k < length alts \<and> tried_in k alts py s = Some sk \<and>
          conversion_run (alts ! k) py sk = (True, None, s'))"
  proof
    assume r: "Clif_PyObjAs_variant alts py v s = None"
    show "\<exists>k sk s'. k < length alts \<and> tried_in k alts py s = Some sk \<and>
          conversion_run (alts ! k) py sk = (True, None, s')"
    proof (cases rule: variant_cases [of alts py s])
      case (all_rejected sn)
      from variant_all_rejected [OF this, of v] r show ?thesis by auto
    next
      case (undefined k sk s'')
      then show ?thesis by blast
    next
      case (accepted k sk x s'')
      from variant_commits [OF this, of v] r show ?thesis by simp
    qed
  next
    assume "\<exists>k sk s'. k < length alts \<and> tried_in k alts py s = Some sk \<and>
          conversion_run (alts ! k) py sk = (True, None, s')"
    then show "Clif_PyObjAs_variant alts py v s = None"
      by (blast intro: variant_undefined)
  qed
qed

text \<open>
  An \<^verbatim>\<open>int\<close> taken by the direct conversion, a list taken through
  \<^verbatim>\<open>std::unique_ptr\<close>, \<^verbatim>\<open>bytes\<close> taken through \<^verbatim>\<open>std::optional\<close> although
  the last alternative would accept them too, an object that no alternative accepts,
  and \<^verbatim>\<open>None\<close>, which the \<^verbatim>\<open>std::optional\<close> conversion accepts as an empty
  wrapper.
\<close>

theorem variant_first_match_wins_witness:
  "Clif_PyObjAs_variant strategy_alts (PyLong 7)
       \<lparr>index = 3, held = Text ''old''\<rparr> \<lparr>err = None, refs = [], avail = 0\<rparr>
     = Some (True, \<lparr>index = 0, held = Number 7\<rparr>, \<lparr>err = None, refs = [], avail = 0\<rparr>) \<and>
   Clif_PyObjAs_variant strategy_alts (PyList [Some (PyBytes ''a'')])
       \<lparr>index = 3, held = Text ''old''\<rparr> \<lparr>err = None, refs = [], avail = 0\<rparr>
     = Some (True, \<lparr>index = 1, held = Items [''a'']\<rparr>,
             \<lparr>err = None, refs = [Decref (PyBytes ''a''), Decref (PyIter [] None)],
                avail = 0\<rparr>) \<and>
   Clif_PyObjAs_variant strategy_alts (PyBytes ''ab'')
       \<lparr>index = 3, held = Text ''old''\<rparr> \<lparr>err = None, refs = [], avail = 0\<rparr>
     = Some (True, \<lparr>index = 2, held = Text ''ab''\<rparr>,
             \<lparr>err = None,
                refs = [Decref (PyLong 97), Decref (PyIter [PyLong 98] None)],
                avail = 0\<rparr>) \<and>
   (\<exists>vn. Clif_PyObjAs_variant strategy_alts (PyObject ''X'')
            \<lparr>index = 3, held = Text ''old''\<rparr> \<lparr>err = None, refs = [], avail = 0\<rparr>
          = Some (False, vn,
                  \<lparr>err = Some (TypeError,
                                ''Failed to convert to any of std::variant alternatives''),
                     refs = [], avail = 0\<rparr>)) \<and>
   Clif_PyObjAs_variant strategy_alts PyNone
       \<lparr>index = 3, held = Text ''old''\<rparr> \<lparr>err = None, refs = [], avail = 0\<rparr>
     = None"
proof -
  let ?v = "\<lparr>index = 3, held = Text ''old''\<rparr>"
  let ?s = "\<lparr>err = None, refs = [], avail = 0\<rparr>"
  note defs = strategy_alts_def as_alternative_def Clif_PyObjAs_int_def
    Clif_PyObjAs_unique_ptr_def Clif_PyObjAs_optional_def Clif_PyObjAs_vector_def
    IterToCont_def PyObject_GetIter_def iter_of_slots_def IterToCont_loop.simps
    PyIter_Next_def Clif_PyObjAs_string_def ObjToStr_def PyLong_AsLong_def
    PyErr_Occurred_def PyErr_SetString_def PyErr_Clear_def Py_DECREF_def
    INT_MAX_def INT_MIN_def
  have l: "length strategy_alts = 4"
    by (simp add: strategy_alts_def)
  note T = variant_first_match_wins [where alts = strategy_alts and v = ?v and s = ?s]
  have a: "Clif_PyObjAs_variant strategy_alts (PyLong 7) ?v ?s
             = Some (True, \<lparr>index = 0, held = Number 7\<rparr>, ?s)"
  proof (rule T [THEN conjunct2, THEN conjunct1, rule_format])
    show "0 < length strategy_alts \<and> tried_in 0 strategy_alts (PyLong 7) ?s = Some ?s \<and>
          conversion_run (strategy_alts ! 0) (PyLong 7) ?s = (True, Some (Number 7), ?s)"
      by (simp add: defs)
  qed
  have b: "Clif_PyObjAs_variant strategy_alts (PyList [Some (PyBytes ''a'')]) ?v ?s
             = Some (True, \<lparr>index = 1, held = Items [''a'']\<rparr>,
                     \<lparr>err = None, refs = [Decref (PyBytes ''a''), Decref (PyIter [] None)],
                        avail = 0\<rparr>)"
  proof (rule T [THEN conjunct2, THEN conjunct1, rule_format])
    show "1 < length strategy_alts \<and>
          tried_in 1 strategy_alts (PyList [Some (PyBytes ''a'')]) ?s = Some ?s \<and>
          conversion_run (strategy_alts ! 1) (PyList [Some (PyBytes ''a'')]) ?s
            = (True, Some (Items [''a'']),
               \<lparr>err = None, refs = [Decref (PyBytes ''a''), Decref (PyIter [] None)],
                  avail = 0\<rparr>)"
      by (simp add: defs)
  qed
  have c: "Clif_PyObjAs_variant strategy_alts (PyBytes ''ab'') ?v ?s
             = Some (True, \<lparr>index = 2, held = Text ''ab''\<rparr>,
                     \<lparr>err = None,
                        refs = [Decref (PyLong 97), Decref (PyIter [PyLong 98] None)],
                        avail = 0\<rparr>)"
  proof (rule T [THEN conjunct2, THEN conjunct1, rule_format])
    show "2 < length strategy_alts \<and>
          tried_in 2 strategy_alts (PyBytes ''ab'') ?s
            = Some \<lparr>err = None,
                     refs = [Decref (PyLong 97), Decref (PyIter [PyLong 98] None)],
                     avail = 0\<rparr> \<and>
          conversion_run (strategy_alts ! 2) (PyBytes ''ab'')
              \<lparr>err = None, refs = [Decref (PyLong 97), Decref (PyIter [PyLong 98] None)],
                 avail = 0\<rparr>
            = (True, Some (Text ''ab''),
               \<lparr>err = None, refs = [Decref (PyLong 97), Decref (PyIter [PyLong 98] None)],
                  avail = 0\<rparr>)"
      by (simp add: defs eval_nat_numeral)
  qed
  have d: "\<exists>vn. Clif_PyObjAs_variant strategy_alts (PyObject ''X'') ?v ?s
             = Some (False, vn,
                     PyErr_SetString TypeError
                       ''Failed to convert to any of std::variant alternatives'' ?s)"
  proof (rule T [THEN conjunct2, THEN conjunct2, THEN conjunct1, rule_format])
    show "tried_in (length strategy_alts) strategy_alts (PyObject ''X'') ?s = Some ?s"
      by (simp add: l) (simp add: defs eval_nat_numeral)
  qed
  have e: "Clif_PyObjAs_variant strategy_alts PyNone ?v ?s = None"
  proof (rule T [THEN conjunct2, THEN conjunct2, THEN conjunct2, THEN conjunct2,
                 THEN conjunct2, THEN iffD2])
    show "\<exists>k sk s'. k < length strategy_alts \<and>
            tried_in k strategy_alts PyNone ?s = Some sk \<and>
            conversion_run (strategy_alts ! k) PyNone sk = (True, None, s')"
      by (intro exI [of _ 2] exI [of _ ?s]) (simp add: defs eval_nat_numeral)
  qed
  from a b c d e show ?thesis
    by (simp add: PyErr_SetString_def)
qed

section \<open>Host lists are built completely or not at all\<close>

lemma PyList_SET_ITEM_next:
  "PyList_SET_ITEM (PyList (map Some filled @ None # rest)) (length filled) v
     = PyList (map Some (filled @ [v]) @ rest)"
  by (simp add: PyList_SET_ITEM_def list_update_append)

lemma ListFromSizableCont_loop_eq:
  "ListFromSizableCont_loop conv pct js
       (PyList (map Some filled @ replicate (length js) None)) (length filled) s =
     (case convert_elements conv pct js s of
        (vs, True, s') \<Rightarrow> (Some (PyList (map Some (filled @ vs))), s')
      | (vs, False, s') \<Rightarrow>
          (None, Py_DECREF (PyList (map Some (filled @ vs) @
                                     replicate (length js - length vs) None)) s'))"
proof (induction js arbitrary: filled s)
  case Nil
  then show ?case by simp
next
  case (Cons j js)
  show ?case
  proof (cases "conv j pct s")
    case (Pair r s')
    show ?thesis
    proof (cases r)
      case None
      with Pair show ?thesis by simp
    next
      case (Some v)
      have "ListFromSizableCont_loop conv pct (j # js)
              (PyList (map Some filled @ replicate (length (j # js)) None)) (length filled) s
            = ListFromSizableCont_loop conv pct js
              (PyList (map Some (filled @ [v]) @ replicate (length js) None))
              (length (filled @ [v])) s'"
        using Pair Some by (simp add: PyList_SET_ITEM_next del: map_append)
      also note Cons.IH [of "filled @ [v]" s']
      finally show ?thesis
        using Pair Some by (simp split: prod.splits bool.splits)
    qed
  qed
qed

lemma ListFromSizableCont_eq:
  "ListFromSizableCont conv c pc s =
     (if avail s = 0 then (None, PyErr_SetString MemoryError [] s)
      else
        (case convert_elements conv (Get pc 0) c (s\<lparr>avail := avail s - 1\<rparr>) of
           (vs, True, s') \<Rightarrow> (Some (PyList (map Some vs)), s')
         | (vs, False, s') \<Rightarrow>
             (None, Py_DECREF (PyList (map Some vs @
                                        replicate (length c - length vs) None)) s')))"
  using ListFromSizableCont_loop_eq [of conv "Get pc 0" c "[]" "s\<lparr>avail := avail s - 1\<rparr>"]
  by (simp add: ListFromSizableCont_def PyList_New_def alloc_def
           split: prod.splits bool.splits)

lemma convert_elements_length:
  "convert_elements conv pct js s = (vs, ok, s') \<Longrightarrow>
     (if ok then length vs = length js
      else length vs < length js \<and> (\<exists>t. conv (js ! length vs) pct t = (None, s')))"
proof (induction js arbitrary: s vs ok s')
  case Nil
  then show ?case by auto
next
  case (Cons j js)
  show ?case
  proof (cases "conv j pct s")
    case (Pair r s1)
    show ?thesis
    proof (cases r)
      case None
      with Pair Cons.prems show ?thesis by auto
    next
      case (Some v)
      obtain vs' ok' s2 where ce: "convert_elements conv pct js s1 = (vs', ok', s2)"
        by (cases "convert_elements conv pct js s1") auto
      with Pair Some Cons.prems have eq: "vs = v # vs'" "ok = ok'" "s' = s2" by auto
      from Cons.IH [OF ce] eq show ?thesis by (auto split: if_splits)
    qed
  qed
qed

text \<open>
  C4. \<^verbatim>\<open>py::ListFromSizableCont\<close> returns either a host list with one filled
  slot for each element of the container, in order, and no unset slot; or null. It
  returns null when the list itself cannot be allocated, and whenever the conversion
  of an element fails: then the list built so far, with the slots of the failed and
  the remaining elements unset, is released by the last operation of the call, once,
  and is not returned.
\<close>

theorem ListFromSizableCont_all_or_nothing:
  assumes "ListFromSizableCont conv c pc s = (r, s')"
  shows "(case r of
            Some py \<Rightarrow>
              (\<exists>vs. py = PyList (map Some vs) \<and> length vs = length c \<and>
                 convert_elements conv (Get pc 0) c (s\<lparr>avail := avail s - 1\<rparr>) = (vs, True, s'))
          | None \<Rightarrow>
              (avail s = 0 \<and> s' = PyErr_SetString MemoryError [] s) \<or>
              (\<exists>vs t. convert_elements conv (Get pc 0) c (s\<lparr>avail := avail s - 1\<rparr>)
                         = (vs, False, t) \<and>
                 length vs < length c \<and>
                 s' = Py_DECREF (PyList (map Some vs @ replicate (length c - length vs) None)) t)) \<and>
         (\<forall>vs t. 0 < avail s \<and>
              convert_elements conv (Get pc 0) c (s\<lparr>avail := avail s - 1\<rparr>) = (vs, False, t) \<longrightarrow>
              r = None \<and>
              refs s' = refs t @ [Decref (PyList (map Some vs @
                                           replicate (length c - length vs) None))])"
proof (cases "avail s = 0")
  case True
  with assms show ?thesis by (auto simp: ListFromSizableCont_eq)
next
  case False
  obtain vs ok t where ce:
    "convert_elements conv (Get pc 0) c (s\<lparr>avail := avail s - 1\<rparr>) = (vs, ok, t)"
    by (cases "convert_elements conv (Get pc 0) c (s\<lparr>avail := avail s - 1\<rparr>)") auto
  from convert_elements_length [OF ce] ce assms False show ?thesis
    by (cases ok) (auto simp: ListFromSizableCont_eq)
qed

text \<open>Five elements, the third of which cannot be converted; and four that can.\<close>

theorem ListFromSizableCont_all_or_nothing_witness:
  "ListFromSizableCont Clif_PyObjFrom_string [''a'', ''b'', ''c'', ''d'', ''e'']
       PostConv_default \<lparr>err = None, refs = [], avail = 3\<rparr>
     = (None,
        \<lparr>err = Some (MemoryError, []),
           refs = [Decref (PyList [Some (PyBytes ''a''), Some (PyBytes ''b''),
                                   None, None, None])],
           avail = 0\<rparr>) \<and>
   ListFromSizableCont Clif_PyObjFrom_string [''a'', ''b'', ''c'', ''d'']
       PostConv_default \<lparr>err = None, refs = [], avail = 5\<rparr>
     = (Some (PyList [Some (PyBytes ''a''), Some (PyBytes ''b''),
                      Some (PyBytes ''c''), Some (PyBytes ''d'')]),
        \<lparr>err = None, refs = [], avail = 0\<rparr>)"
proof -
  let ?s = "\<lparr>err = None, refs = [], avail = 3\<rparr>"
  let ?c = "[''a'', ''b'', ''c'', ''d'', ''e'']"
  obtain r s' where run:
    "ListFromSizableCont Clif_PyObjFrom_string ?c PostConv_default ?s = (r, s')"
    by (cases "ListFromSizableCont Clif_PyObjFrom_string ?c PostConv_default ?s") auto
  have ce: "convert_elements Clif_PyObjFrom_string (Get PostConv_default 0) ?c
              (?s\<lparr>avail := avail ?s - 1\<rparr>)
            = ([PyBytes ''a'', PyBytes ''b''], False,
               \<lparr>err = Some (MemoryError, []), refs = [], avail = 0\<rparr>)"
    by (simp add: Clif_PyObjFrom_string_def PyBytes_FromStringAndSize_def alloc_def
        Get_def PostConv_default_def PyErr_SetString_def)
  from ListFromSizableCont_all_or_nothing [OF run] ce
  have "r = None" and
    "refs s' = [Decref (PyList [Some (PyBytes ''a''), Some (PyBytes ''b''),
                                None, None, None])]"
    by (simp_all add: numeral_eq_Suc)
  with run show ?thesis
    by (simp add: ListFromSizableCont_def PyList_New_def Clif_PyObjFrom_string_def
        PyBytes_FromStringAndSize_def alloc_def Get_def PostConv_default_def
        PyList_SET_ITEM_def PyErr_SetString_def Py_DECREF_def numeral_eq_Suc)
qed

section \<open>Round trips\<close>

lemma Get_default [simp]: "Get PostConv_default i = PostConv_default"
  by (simp add: Get_def PostConv_default_def)

lemma Apply_default [simp]: "Apply PostConv_default py s = (py, s)"
  by (simp add: PostConv_default_def)



subsection \<open>Integers and \<^verbatim>\<open>bool\<close>\<close>






























subsection \<open>Containers, pairs, tuples and optionals\<close>

lemma those_slots_map_Some [simp]: "those_slots (map Some vs) = Some vs"
  by (induction vs) simp_all



























subsection \<open>Host forms\<close>

lemma host_forms_string [simp]: "host_forms Clif_PyObjFrom_string x = {PyBytes x}"
proof -
  have "Clif_PyObjFrom_string x PostConv_default \<lparr>err = None, refs = [], avail = 1\<rparr>
          = (Some (PyBytes x), \<lparr>err = None, refs = [], avail = 0\<rparr>)"
    by (simp add: Clif_PyObjFrom_string_def PyBytes_FromStringAndSize_def alloc_def)
  then have "PyBytes x \<in> host_forms Clif_PyObjFrom_string x"
    unfolding host_forms_def by blast
  moreover have "py = PyBytes x" if "py \<in> host_forms Clif_PyObjFrom_string x" for py
    using that
    by (auto simp: host_forms_def Clif_PyObjFrom_string_def PyBytes_FromStringAndSize_def
        alloc_def split: if_splits)
  ultimately show ?thesis by blast
qed

lemma host_forms_signed [simp]: "host_forms Clif_PyObjFrom_signed x = {PyLong (sint x)}"
  by (auto simp: host_forms_def Clif_PyObjFrom_signed_def)

lemma host_forms_unsigned [simp]: "host_forms Clif_PyObjFrom_unsigned x = {PyLong (uint x)}"
  by (auto simp: host_forms_def Clif_PyObjFrom_unsigned_def)

lemma host_forms_bool [simp]: "host_forms Clif_PyObjFrom_bool x = {PyBool x}"
  by (auto simp: host_forms_def Clif_PyObjFrom_bool_def)






subsection \<open>Variants\<close>





text \<open>
  Why the sets and maps below need distinct host forms: the host considers \<^verbatim>\<open>True\<close>
  and \<^verbatim>\<open>1\<close> equal, so the two elements of a
  \<^verbatim>\<open>std::set<std::variant<bool, int>>\<close> that holds \<^verbatim>\<open>true\<close> and \<^verbatim>\<open>1\<close>
  become one element of the host set, and no conversion of the elements brings two
  back. Why the 128-bit integers need memory: their conversion from the host builds
  new host integers, and \<open>2\<^sup>6\<^sup>4 + 1000\<close> is not converted when only one can be
  made, or none.
\<close>

lemma equal_host_forms_collapse:
  "Clif_PyObjFrom_set (\<lambda>c. [Inl True, Inr 1]) flag_or_count_to_host {Inl True, Inr 1}
       PostConv_default \<lparr>err = None, refs = [], avail = 1\<rparr>
     = (Some (PySet [PyBool True]),
        \<lparr>err = None, refs = [Decref (PyBool True), Decref (PyLong 1)], avail = 0\<rparr>) \<and>
   (\<forall>from_h dflt d t.
      fst (snd (Clif_PyObjAs_set from_h dflt (PySet [PyBool True]) d t))
        \<noteq> {Inl True, Inr (1 :: 32 word)})"
proof
  show "Clif_PyObjFrom_set (\<lambda>c. [Inl True, Inr 1]) flag_or_count_to_host {Inl True, Inr 1}
       PostConv_default \<lparr>err = None, refs = [], avail = 1\<rparr>
     = (Some (PySet [PyBool True]),
        \<lparr>err = None, refs = [Decref (PyBool True), Decref (PyLong 1)], avail = 0\<rparr>)"
    by (simp add: Clif_PyObjFrom_set_def SetFromCont_def PySet_New_def alloc_def
        flag_or_count_to_host_def Clif_PyObjFrom_bool_def Clif_PyObjFrom_signed_def
        PySet_Add_def py_eq.simps Py_DECREF_def)
  show "\<forall>from_h dflt d t.
      fst (snd (Clif_PyObjAs_set from_h dflt (PySet [PyBool True]) d t))
        \<noteq> {Inl True, Inr (1 :: 32 word)}"
    by (auto simp: Clif_PyObjAs_set_def IterToCont_def PyObject_GetIter_def
        IterToCont_loop.simps PyIter_Next_def Let_def split: prod.splits)
qed

lemma uint128_needs_memory:
  "Clif_PyObjAs_uint128 (PyLong (2 ^ 64 + 1000)) 0 \<lparr>err = None, refs = [], avail = 1\<rparr>
     = Some (False, MakeUint128 1 (- 1),
             \<lparr>err = Some (SystemError, ''bad argument to internal function''), refs = [],
                avail = 0\<rparr>) \<and>
   Clif_PyObjAs_uint128 (PyLong (2 ^ 64 + 1000)) 0 \<lparr>err = None, refs = [], avail = 0\<rparr>
     = None"
proof -
  have "(18446744073709552616 :: int) AND 18446744073709551615 = 1000"
    by code_simp
  then show ?thesis
    by (simp add: Clif_PyObjAs_uint128_def new_long_def PyNumber_And_def PyNumber_Rshift_def
        as_unsigned_long_long_def PyLong_AsUnsignedLongLong_def
        PyErr_SetString_def PyErr_Occurred_def drop_bit_eq_div)
qed



end
